theory Spec2Isabelle
  imports Main "HOL-Library.Sublist"
begin

section \<open>JavaScript values as the gateway sees them\<close>

text \<open>
  The gateway (\<^verbatim>\<open>gateway-server.cjs\<close>) receives JSON request bodies and decoded
  protobuf responses. A value is one of the JSON shapes. Numbers are modelled at
  integer values (the data model of a launch request has integer capacities), meant
  within the safe range of magnitude below \<open>2\<^sup>5\<^sup>3\<close>, where a number and its
  decimal string determine each other; fractional numbers and \<^verbatim>\<open>NaN\<close> as a
  field value are outside the model.
  Strings are lists of characters; every character outside ASCII is treated alike
  by the checks below (it is outside each character class).
\<close>

datatype jsval =
    JUndefined
  | JNull
  | JBool bool
  | JNum int
  | JStr string
  | JArr "jsval list"
  | JObj "(string \<times> jsval) list"

text \<open>\<^verbatim>\<open>!v\<close> is \<open>\<not> truthy v\<close>.\<close>

fun truthy :: "jsval \<Rightarrow> bool" where
  "truthy JUndefined = False"
| "truthy JNull = False"
| "truthy (JBool b) = b"
| "truthy (JNum n) = (n \<noteq> 0)"
| "truthy (JStr s) = (s \<noteq> [])"
| "truthy (JArr xs) = True"
| "truthy (JObj kvs) = True"

text \<open>\<^verbatim>\<open>a || b\<close>\<close>

definition js_or :: "jsval \<Rightarrow> jsval \<Rightarrow> jsval" where
  "js_or a b = (if truthy a then a else b)"

text \<open>\<^verbatim>\<open>typeof v === 'string'\<close>\<close>

fun is_string :: "jsval \<Rightarrow> bool" where
  "is_string (JStr s) = True"
| "is_string v = False"

text \<open>
  \<^verbatim>\<open>a === b\<close> on the values that occur: primitives are compared by value, two
  objects or arrays that come from different places are never the same reference.
\<close>

definition strict_eq :: "jsval \<Rightarrow> jsval \<Rightarrow> bool" where
  "strict_eq a b = (case a of JArr xs \<Rightarrow> False | JObj kvs \<Rightarrow> False | _ \<Rightarrow> a = b)"

text \<open>\<^verbatim>\<open>s.includes(sub)\<close> and \<^verbatim>\<open>s.startsWith(p)\<close> on strings.\<close>

fun str_includes :: "string \<Rightarrow> string \<Rightarrow> bool" where
  "str_includes [] sub = (sub = [])"
| "str_includes (c # cs) sub = (prefix sub (c # cs) \<or> str_includes cs sub)"

definition startsWith :: "string \<Rightarrow> string \<Rightarrow> bool" where
  "startsWith s p = prefix p s"

section \<open>Configuration\<close>

text \<open>
  The constants read from the environment when the gateway starts. The numeric ones
  are \<^verbatim>\<open>parseInt(process.env.X || default, 10)\<close>; a value that does not parse
  (\<^verbatim>\<open>NaN\<close>) is outside the model. \<^verbatim>\<open>ALLOWED_INPUT_PATHS\<close> is \<^verbatim>\<open>null\<close> when the
  variable is unset or empty, and the comma-separated list otherwise.
\<close>

record config =
  DEBUG :: bool
  MAX_CAPACITY :: int
  ALLOWED_INPUT_PATHS :: "string list option"
  RATE_LIMIT_WINDOW_MS :: int
  RATE_LIMIT_MAX_REQUESTS :: int

text \<open>
  Functions of the Node.js runtime that the gateway calls and that are not code of
  the repository are parameters: \<^verbatim>\<open>path.resolve\<close>, \<^verbatim>\<open>path.join\<close>,
  \<^verbatim>\<open>path.dirname\<close>, and the conversion of a string to a number that
  \<^verbatim>\<open>Number(s)\<close> performs (\<open>None\<close> is \<^verbatim>\<open>NaN\<close>).
\<close>

record node =
  resolve :: "string \<Rightarrow> string"
  join :: "string list \<Rightarrow> string"
  dirname :: "string \<Rightarrow> string"
  StringToNumber :: "string \<Rightarrow> int option"

section \<open>Characters, numbers and strings\<close>

definition in_range :: "char \<Rightarrow> char \<Rightarrow> char \<Rightarrow> bool" where
  "in_range lo hi c = ((of_char lo :: nat) \<le> of_char c \<and> (of_char c :: nat) \<le> of_char hi)"

definition is_alnum :: "char \<Rightarrow> bool" where
  "is_alnum c = (in_range CHR ''a'' CHR ''z'' c \<or> in_range CHR ''A'' CHR ''Z'' c
                 \<or> in_range CHR ''0'' CHR ''9'' c)"

text \<open>The class \<^verbatim>\<open>[0-9]\<close> and the value of a digit character.\<close>

definition digit_val :: "char \<Rightarrow> int" where
  "digit_val c = int (of_char c) - 48"

definition is_digit :: "char \<Rightarrow> bool" where
  "is_digit c = in_range CHR ''0'' CHR ''9'' c"

text \<open>The value of a string of decimal digits, most significant first.\<close>

fun digits_val :: "int \<Rightarrow> string \<Rightarrow> int" where
  "digits_val acc [] = acc"
| "digits_val acc (c # cs) = digits_val (10 * acc + digit_val c) cs"

text \<open>
  \<^verbatim>\<open>String(n)\<close> of an integer in the safe range: its decimal digits, with a
  minus sign when negative.
\<close>

text \<open>The digit character of a number below ten (the function is used on those only).\<close>

definition digit_char :: "nat \<Rightarrow> char" where
  "digit_char d = ''0123456789'' ! d"

function string_of_nat :: "nat \<Rightarrow> string" where
  "string_of_nat n =
     (if n < 10 then [digit_char n]
      else string_of_nat (n div 10) @ [digit_char (n mod 10)])"
  by pat_completeness auto
termination
  by (relation "measure (\<lambda>n. n)") auto

declare string_of_nat.simps [simp del]

definition string_of_int :: "int \<Rightarrow> string" where
  "string_of_int i = (if i < 0 then CHR ''-'' # string_of_nat (nat (- i)) else string_of_nat (nat i))"

definition nullish :: "jsval \<Rightarrow> bool" where
  "nullish v = (v = JUndefined \<or> v = JNull)"

text \<open>
  \<^verbatim>\<open>String(v)\<close>, which is also what a template literal and \<^verbatim>\<open>parseInt\<close> apply to
  a value. An array prints its elements separated by commas, with nothing for
  \<^verbatim>\<open>null\<close> and \<^verbatim>\<open>undefined\<close>.
\<close>

fun ToString :: "jsval \<Rightarrow> string" and ToStrings :: "jsval list \<Rightarrow> string" where
  "ToString JUndefined = ''undefined''"
| "ToString JNull = ''null''"
| "ToString (JBool b) = (if b then ''true'' else ''false'')"
| "ToString (JNum n) = string_of_int n"
| "ToString (JStr s) = s"
| "ToString (JArr xs) = ToStrings xs"
| "ToString (JObj kvs) = ''[object Object]''"
| "ToStrings [] = []"
| "ToStrings (x # xs) =
     (if x = JUndefined \<or> x = JNull then [] else ToString x) @ (if xs = [] then [] else '','' @ ToStrings xs)"

text \<open>\<^verbatim>\<open>xs.join(', ')\<close> on an array of strings.\<close>

fun join_comma :: "string list \<Rightarrow> string" where
  "join_comma [] = []"
| "join_comma [x] = x"
| "join_comma (x # y # ys) = x @ '', '' @ join_comma (y # ys)"





text \<open>
  \<^verbatim>\<open>Number(v)\<close>, with \<open>None\<close> for \<^verbatim>\<open>NaN\<close>. An array is first converted to
  its string, which the runtime then converts; the string of an object,
  \<^verbatim>\<open>[object Object]\<close>, is not a number.
\<close>

fun Number :: "node \<Rightarrow> jsval \<Rightarrow> int option" where
  "Number nd JUndefined = None"
| "Number nd JNull = Some 0"
| "Number nd (JBool b) = Some (if b then 1 else 0)"
| "Number nd (JNum n) = Some n"
| "Number nd (JStr s) = StringToNumber nd s"
| "Number nd (JArr xs) = StringToNumber nd (ToString (JArr xs))"
| "Number nd (JObj kvs) = None"

section \<open>Validator\<close>

datatype validation = Valid | Invalid string

text \<open>The class \<^verbatim>\<open>[a-zA-Z0-9_-]\<close>.\<close>

definition jobid_char :: "char \<Rightarrow> bool" where
  "jobid_char c = (is_alnum c \<or> c = CHR ''_'' \<or> c = CHR ''-'')"

text \<open>The class \<^verbatim>\<open>[a-zA-Z0-9/._-]\<close>.\<close>

definition path_char :: "char \<Rightarrow> bool" where
  "path_char c = (is_alnum c \<or> c = CHR ''/'' \<or> c = CHR ''.'' \<or> c = CHR ''_'' \<or> c = CHR ''-'')"

text \<open>
  \<^verbatim>\<open>/^[class]+$/.test(s)\<close>: without the \<^verbatim>\<open>m\<close> flag the anchors are the two ends of
  the string, so the whole string is one or more characters of the class.
\<close>

fun all_in_class :: "(char \<Rightarrow> bool) \<Rightarrow> string \<Rightarrow> bool" where
  "all_in_class p [] = True"
| "all_in_class p (c # cs) = (p c \<and> all_in_class p cs)"

definition test_plus :: "(char \<Rightarrow> bool) \<Rightarrow> string \<Rightarrow> bool" where
  "test_plus p s = (case s of [] \<Rightarrow> False | c # cs \<Rightarrow> p c \<and> all_in_class p cs)"

text \<open>
  \<^verbatim>\<open>
  function validateJobId(jobId) {
    if (!jobId || typeof jobId !== 'string') return { valid: false, ... };
    if (jobId.length === 0 || jobId.length > 128) return { valid: false, ... };
    if (!/^[a-zA-Z0-9_-]+$/.test(jobId)) return { valid: false, ... };
    if (jobId === 'undefined' || jobId === 'null' || jobId === 'true' || jobId === 'false')
      return { valid: false, error: 'Invalid job ID format' };
    return { valid: true };
  }
  \<close>
\<close>

fun validateJobId :: "jsval \<Rightarrow> validation" where
  "validateJobId (JStr jobId) =
     (if jobId = [] then Invalid ''Job ID is required and must be a string''
      else if length jobId = 0 \<or> length jobId > 128
        then Invalid ''Job ID must be between 1 and 128 characters''
      else if \<not> test_plus jobid_char jobId
        then Invalid ''Job ID contains invalid characters. Only alphanumeric, underscore, and hyphen are allowed''
      else if jobId = ''undefined'' \<or> jobId = ''null'' \<or> jobId = ''true'' \<or> jobId = ''false''
        then Invalid ''Invalid job ID format''
      else Valid)"
| "validateJobId v = Invalid ''Job ID is required and must be a string''"

text \<open>
  \<^verbatim>\<open>
  function validatePath(pathValue, pathType = 'input') {
    if (!pathValue || typeof pathValue !== 'string') return { valid: false, ... };
    if (pathValue.length === 0 || pathValue.length > 512) return { valid: false, ... };
    if (pathValue.includes('..') || pathValue.includes('//')) return { valid: false, ... };
    if (!/^[a-zA-Z0-9/._-]+$/.test(pathValue)) return { valid: false, ... };
    if (pathValue.startsWith('/') && !pathValue.match(/^\/[a-zA-Z0-9/._-]+$/))
      return { valid: false, error: 'Absolute path must start with a valid directory name' };
    if (ALLOWED_INPUT_PATHS && pathType === 'input') {
      const normalizedPath = path.resolve(pathValue);
      const allowed = ALLOWED_INPUT_PATHS.some(allowedPath => {
        const normalizedAllowed = path.resolve(allowedPath);
        return normalizedPath.startsWith(normalizedAllowed);
      });
      if (!allowed) return { valid: false, ... };
    }
    return { valid: true };
  }
  \<close>
  The message of the last failure ends with \<^verbatim>\<open>ALLOWED_INPUT_PATHS.join(', ')\<close>.
\<close>

text \<open>\<^verbatim>\<open>/^\/[a-zA-Z0-9/._-]+$/\<close>\<close>

definition match_abs :: "string \<Rightarrow> bool" where
  "match_abs s = (case s of [] \<Rightarrow> False | c # cs \<Rightarrow> c = CHR ''/'' \<and> test_plus path_char cs)"

definition some_allowed :: "node \<Rightarrow> string list \<Rightarrow> string \<Rightarrow> bool" where
  "some_allowed nd roots pathValue =
     list_ex (\<lambda>allowedPath. startsWith (resolve nd pathValue) (resolve nd allowedPath)) roots"

fun validatePath :: "config \<Rightarrow> node \<Rightarrow> jsval \<Rightarrow> string \<Rightarrow> validation" where
  "validatePath cfg nd (JStr pathValue) pathType =
     (if pathValue = [] then Invalid ''Path is required and must be a string''
      else if length pathValue = 0 \<or> length pathValue > 512
        then Invalid ''Path must be between 1 and 512 characters''
      else if str_includes pathValue ''..'' \<or> str_includes pathValue ''//''
        then Invalid ''Path contains invalid characters (.. or //). Path traversal is not allowed''
      else if \<not> test_plus path_char pathValue
        then Invalid ''Path contains invalid characters. Only alphanumeric, slashes, dots, underscores, and hyphens are allowed''
      else if startsWith pathValue ''/'' \<and> \<not> match_abs pathValue
        then Invalid ''Absolute path must start with a valid directory name''
      else (case ALLOWED_INPUT_PATHS cfg of
              None \<Rightarrow> Valid
            | Some roots \<Rightarrow>
                if pathType = ''input'' \<and> \<not> some_allowed nd roots pathValue
                then Invalid (''Input path must be within allowed directories: '' @ join_comma roots)
                else Valid))"
| "validatePath cfg nd v pathType = Invalid ''Path is required and must be a string''"

text \<open>
  \<^verbatim>\<open>
  function validateComputeCapacity(capacity) {
    const num = Number(capacity);
    if (isNaN(num) || num < 1) return { valid: false, ... };
    if (num > MAX_CAPACITY) return { valid: false, ... };
    return { valid: true };
  }
  \<close>
\<close>

definition validateComputeCapacity :: "config \<Rightarrow> node \<Rightarrow> jsval \<Rightarrow> validation" where
  "validateComputeCapacity cfg nd capacity =
     (case Number nd capacity of
        None \<Rightarrow> Invalid ''Compute capacity must be a number greater than 0''
      | Some num \<Rightarrow>
          if num < 1 then Invalid ''Compute capacity must be a number greater than 0''
          else if num > MAX_CAPACITY cfg
            then Invalid (''Compute capacity exceeds maximum allowed ('' @ string_of_int (MAX_CAPACITY cfg)
                          @ '' CU). Please reduce the capacity requirement.'')
          else Valid)"

section \<open>What the specification says of the validators\<close>

text \<open>The pattern \<^verbatim>\<open>^[class]{lo,hi}$\<close> of the specification.\<close>

definition matches_rep :: "(char \<Rightarrow> bool) \<Rightarrow> nat \<Rightarrow> nat \<Rightarrow> string \<Rightarrow> bool" where
  "matches_rep p lo hi s = (lo \<le> length s \<and> length s \<le> hi \<and> list_all p s)"

definition reserved_literals :: "string list" where
  "reserved_literals = [''undefined'', ''null'', ''true'', ''false'']"

text \<open>
  The specification's condition for a job id to be accepted: a string matching
  \<^verbatim>\<open>^[A-Za-z0-9_-]{1,128}$\<close> that is none of the reserved literals.
\<close>

fun jobid_accepted_spec :: "jsval \<Rightarrow> bool" where
  "jobid_accepted_spec (JStr s) =
     (matches_rep jobid_char 1 128 s \<and> s \<notin> set reserved_literals)"
| "jobid_accepted_spec v = False"


text \<open>
  The specification's condition for a path to be rejected: empty, longer than 512
  characters, containing \<^verbatim>\<open>..\<close> or \<^verbatim>\<open>//\<close>, containing a character outside
  \<^verbatim>\<open>[A-Za-z0-9/._-]\<close>, or, when an allow-list is configured and the kind is
  \<^verbatim>\<open>input\<close>, resolving to a path that no resolved allowed root is a prefix of.
\<close>

definition path_rejected_spec :: "config \<Rightarrow> node \<Rightarrow> string \<Rightarrow> string \<Rightarrow> bool" where
  "path_rejected_spec cfg nd p kind =
     (p = [] \<or> length p > 512 \<or> str_includes p ''..'' \<or> str_includes p ''//''
      \<or> \<not> list_all path_char p
      \<or> (case ALLOWED_INPUT_PATHS cfg of
            None \<Rightarrow> False
          | Some roots \<Rightarrow>
              kind = ''input'' \<and> \<not> list_ex (\<lambda>r. prefix (resolve nd r) (resolve nd p)) roots))"

section \<open>A configuration and a runtime for the examples\<close>

text \<open>The defaults of the source when no environment variable is set.\<close>

definition default_config :: config where
  "default_config = \<lparr> DEBUG = False, MAX_CAPACITY = 1000, ALLOWED_INPUT_PATHS = None,
     RATE_LIMIT_WINDOW_MS = 60000, RATE_LIMIT_MAX_REQUESTS = 10 \<rparr>"

fun join_slash :: "string list \<Rightarrow> string" where
  "join_slash [] = ''.''"
| "join_slash [s] = s"
| "join_slash (s # t # ss) = s @ ''/'' @ join_slash (t # ss)"

definition decimal_to_number :: "string \<Rightarrow> int option" where
  "decimal_to_number s =
     (if s = [] then Some 0
      else if list_all is_digit s then Some (digits_val 0 s) else None)"

text \<open>
  The runtime of the examples. On the inputs the examples use it behaves as Node.js
  on POSIX does: \<^verbatim>\<open>path.resolve\<close> leaves an absolute path without \<^verbatim>\<open>.\<close>,
  \<^verbatim>\<open>..\<close>, doubled or trailing slashes unchanged; \<^verbatim>\<open>path.join\<close> of such segments
  puts one slash between them; \<^verbatim>\<open>Number\<close> of a string of decimal digits is its
  value. \<^verbatim>\<open>path.dirname\<close> is not used by an example.
\<close>

definition example_node :: node where
  "example_node = \<lparr> resolve = (\<lambda>p. p), join = join_slash, dirname = (\<lambda>p. p),
     StringToNumber = decimal_to_number \<rparr>"

section \<open>Error sanitization\<close>

text \<open>
  An error object as the handlers see it: its \<^verbatim>\<open>code\<close> property (a gRPC status
  number, a Node.js code string such as \<^verbatim>\<open>'ENOENT'\<close>, or undefined), its
  \<^verbatim>\<open>name\<close> and its \<^verbatim>\<open>message\<close>. \<^verbatim>\<open>String(error)\<close> of an error whose message
  is empty is its name.
\<close>

record err =
  err_code :: jsval
  err_name :: string
  err_message :: string

text \<open>The status numbers of \<^verbatim>\<open>grpc.status\<close> in \<^verbatim>\<open>@grpc/grpc-js\<close>.\<close>

definition OK :: int where "OK = 0"
definition CANCELLED :: int where "CANCELLED = 1"
definition INVALID_ARGUMENT :: int where "INVALID_ARGUMENT = 3"
definition DEADLINE_EXCEEDED :: int where "DEADLINE_EXCEEDED = 4"
definition NOT_FOUND :: int where "NOT_FOUND = 5"
definition PERMISSION_DENIED :: int where "PERMISSION_DENIED = 7"
definition UNAVAILABLE :: int where "UNAVAILABLE = 14"

text \<open>
  \<^verbatim>\<open>message.replace(/lit\d+/g, 'server')\<close> for a literal \<open>lit\<close>: scanning from
  the left, each occurrence of the literal followed by at least one digit is
  replaced, with all the digits that follow it.
\<close>

function replace_lit_digits :: "string \<Rightarrow> string \<Rightarrow> string" where
  "replace_lit_digits lit [] = []"
| "replace_lit_digits lit (c # cs) =
     (if prefix lit (c # cs) \<and>
         (case drop (length lit) (c # cs) of [] \<Rightarrow> False | d # ds \<Rightarrow> is_digit d)
      then ''server'' @ replace_lit_digits lit (dropWhile is_digit (drop (length lit) (c # cs)))
      else c # replace_lit_digits lit cs)"
  by pat_completeness auto
termination
proof (relation "measure (\<lambda>(lit, s). length s)")
  fix lit :: string and c :: char and cs :: string
  assume h: "prefix lit (c # cs) \<and>
     (case drop (length lit) (c # cs) of [] \<Rightarrow> False | d # ds \<Rightarrow> is_digit d)"
  then obtain d ds where dd: "drop (length lit) (c # cs) = d # ds" and dig: "is_digit d"
    by (auto split: list.splits)
  have "length (dropWhile is_digit (d # ds)) \<le> length ds"
    using dig by (simp add: length_dropWhile_le)
  moreover have "length (d # ds) \<le> length (c # cs)"
    using dd by (metis length_drop diff_le_self)
  ultimately show "((lit, dropWhile is_digit (drop (length lit) (c # cs))), (lit, c # cs))
      \<in> measure (\<lambda>(lit, s). length s)"
    using dd by simp
qed simp_all

declare replace_lit_digits.simps [simp del]

text \<open>
  \<^verbatim>\<open>
  function sanitizeError(error) {
    if (DEBUG) console.error('[DEBUG] Full error details:', error);
    if (!error) return 'Internal server error';
    if (error.code === grpc.status.NOT_FOUND) return 'Resource not found';
    if (error.code === grpc.status.UNAVAILABLE) return 'Service unavailable - coordinator may be down';
    if (error.code === grpc.status.DEADLINE_EXCEEDED) return 'Request timeout - service is overloaded';
    if (error.code === grpc.status.INVALID_ARGUMENT) return 'Invalid request parameters';
    if (error.code === grpc.status.PERMISSION_DENIED) return 'Permission denied';
    const message = error.message || String(error);
    if (message && message.includes('timeout')) return 'Request timeout - service is not responding';
    if (message.includes('PROTO_PATH') || message.includes('proto')) return 'Configuration error';
    if (message.includes('localhost') || message.includes('127.0.0.1') || message.includes(':')) {
      const safeMessage = message.replace(/localhost:\d+/g, 'server').replace(/127\.0\.0\.1:\d+/g, 'server');
      return safeMessage;
    }
    if (message.length > 200) return message.substring(0, 200) + '...';
    return 'Internal server error';
  }
  \<close>
  The returned string is \<open>sanitizeError\<close>; what the call writes to the console is
  \<open>sanitizeError_console\<close>.
\<close>

definition error_text :: "err \<Rightarrow> string" where
  "error_text e = (if err_message e \<noteq> [] then err_message e else err_name e)"

definition sanitizeError :: "err option \<Rightarrow> string" where
  "sanitizeError error =
     (case error of
        None \<Rightarrow> ''Internal server error''
      | Some e \<Rightarrow>
          if strict_eq (err_code e) (JNum NOT_FOUND) then ''Resource not found''
          else if strict_eq (err_code e) (JNum UNAVAILABLE)
            then ''Service unavailable - coordinator may be down''
          else if strict_eq (err_code e) (JNum DEADLINE_EXCEEDED)
            then ''Request timeout - service is overloaded''
          else if strict_eq (err_code e) (JNum INVALID_ARGUMENT) then ''Invalid request parameters''
          else if strict_eq (err_code e) (JNum PERMISSION_DENIED) then ''Permission denied''
          else
            let message = error_text e in
            if message \<noteq> [] \<and> str_includes message ''timeout''
              then ''Request timeout - service is not responding''
            else if str_includes message ''PROTO_PATH'' \<or> str_includes message ''proto''
              then ''Configuration error''
            else if str_includes message ''localhost'' \<or> str_includes message ''127.0.0.1''
                    \<or> str_includes message '':''
              then replace_lit_digits ''127.0.0.1:'' (replace_lit_digits ''localhost:'' message)
            else if length message > 200 then take 200 message @ ''...''
            else ''Internal server error'')"

definition sanitizeError_console :: "config \<Rightarrow> err option \<Rightarrow> err option list" where
  "sanitizeError_console cfg error = (if DEBUG cfg then [error] else [])"

section \<open>Rate limiter\<close>

text \<open>
  \<^verbatim>\<open>rateLimitMap\<close> maps a client key to its record \<^verbatim>\<open>{ count, resetTime }\<close>.
  \<^verbatim>\<open>
  function rateLimit(req, res, next) {
    const key = req.ip || req.connection.remoteAddress || 'unknown';
    const now = Date.now();
    if (!rateLimitMap.has(key)) {
      rateLimitMap.set(key, { count: 1, resetTime: now + RATE_LIMIT_WINDOW_MS });
      return next();
    }
    const record = rateLimitMap.get(key);
    if (now > record.resetTime) {
      record.count = 1;
      record.resetTime = now + RATE_LIMIT_WINDOW_MS;
      return next();
    }
    if (record.count >= RATE_LIMIT_MAX_REQUESTS) {
      return res.status(429).json({ error: `Rate limit exceeded. Maximum
        ${RATE_LIMIT_MAX_REQUESTS} requests per ${RATE_LIMIT_WINDOW_MS / 1000} seconds. ...` });
    }
    record.count++;
    next();
  }
  \<close>
  The function takes the key and the clock reading and returns the new map with its
  decision. The 429 message is kept as the two numbers it interpolates: the limit
  and the window in milliseconds (printed divided by 1000).
\<close>

record rl_record =
  count :: int
  resetTime :: int

type_synonym rateLimitMap = "string \<rightharpoonup> rl_record"

datatype rl_outcome = Next | Status429 int int

definition rateLimit :: "config \<Rightarrow> rateLimitMap \<Rightarrow> string \<Rightarrow> int \<Rightarrow> rateLimitMap \<times> rl_outcome" where
  "rateLimit cfg m key now =
     (case m key of
        None \<Rightarrow> (m(key \<mapsto> \<lparr> count = 1, resetTime = now + RATE_LIMIT_WINDOW_MS cfg \<rparr>), Next)
      | Some record \<Rightarrow>
          if now > resetTime record
            then (m(key \<mapsto> record\<lparr> count := 1, resetTime := now + RATE_LIMIT_WINDOW_MS cfg \<rparr>), Next)
          else if count record \<ge> RATE_LIMIT_MAX_REQUESTS cfg
            then (m, Status429 (RATE_LIMIT_MAX_REQUESTS cfg) (RATE_LIMIT_WINDOW_MS cfg))
          else (m(key \<mapsto> record\<lparr> count := count record + 1 \<rparr>), Next))"

text \<open>
  The periodic sweep:
  \<^verbatim>\<open>
  setInterval(() => {
    const now = Date.now();
    for (const [key, record] of rateLimitMap.entries())
      if (now > record.resetTime) rateLimitMap.delete(key);
  }, RATE_LIMIT_WINDOW_MS);
  \<close>
\<close>

definition sweep :: "int \<Rightarrow> rateLimitMap \<Rightarrow> rateLimitMap" where
  "sweep now m =
     (\<lambda>key. case m key of
               None \<Rightarrow> None
             | Some record \<Rightarrow> if now > resetTime record then None else Some record)"

text \<open>
  What happens to the limiter over time: requests (a key and the clock reading) and
  sweeps (the clock reading), in the order in which the single-threaded runtime runs
  them. \<open>run_limiter\<close> gives the decision of each request, in order.
\<close>

datatype rl_event = Request string int | Sweep int

fun event_time :: "rl_event \<Rightarrow> int" where
  "event_time (Request k t) = t"
| "event_time (Sweep t) = t"

fun run_limiter :: "config \<Rightarrow> rateLimitMap \<Rightarrow> rl_event list \<Rightarrow> (string \<times> rl_outcome) list" where
  "run_limiter cfg m [] = []"
| "run_limiter cfg m (Request k t # es) =
     (k, snd (rateLimit cfg m k t)) # run_limiter cfg (fst (rateLimit cfg m k t)) es"
| "run_limiter cfg m (Sweep t # es) = run_limiter cfg (sweep t m) es"

text \<open>The decisions taken for one key, and the number of its requests.\<close>

definition decisions_for :: "string \<Rightarrow> (string \<times> rl_outcome) list \<Rightarrow> rl_outcome list" where
  "decisions_for k outs = map snd (filter (\<lambda>ko. fst ko = k) outs)"

fun is_request_of :: "string \<Rightarrow> rl_event \<Rightarrow> bool" where
  "is_request_of k (Request k' t) = (k' = k)"
| "is_request_of k (Sweep t) = False"

definition requests_of :: "string \<Rightarrow> rl_event list \<Rightarrow> nat" where
  "requests_of k es = length (filter (is_request_of k) es)"

text \<open>A window for \<open>k\<close> opens at the next request: no record, or an expired one.\<close>

definition window_opens :: "rateLimitMap \<Rightarrow> string \<Rightarrow> int \<Rightarrow> bool" where
  "window_opens m k t0 = (case m k of None \<Rightarrow> True | Some record \<Rightarrow> t0 > resetTime record)"


text \<open>The limiter of the examples admits two requests per minute.\<close>

definition two_per_minute :: config where
  "two_per_minute = default_config\<lparr> RATE_LIMIT_MAX_REQUESTS := 2 \<rparr>"

section \<open>The RPC call wrapper\<close>

text \<open>
  \<^verbatim>\<open>grpcCall(method, request, timeoutMs)\<close> returns a promise and keeps three
  variables, \<^verbatim>\<open>timeoutId\<close>, \<^verbatim>\<open>completed\<close> and \<^verbatim>\<open>call\<close>. The state below holds
  them, with what the wrapper did to the outside: the calls of \<^verbatim>\<open>resolve\<close> and
  \<^verbatim>\<open>reject\<close> in order (\<open>settled\<close>) and the number of \<^verbatim>\<open>call.cancel()\<close>.
  \<open>timeoutId\<close> is true while the variable holds the pending timer; \<open>call\<close> is
  true once the call object exists; \<open>listening\<close> is true once the \<^verbatim>\<open>'error'\<close> and
  \<^verbatim>\<open>'status'\<close> listeners are registered.
\<close>

datatype outcome = Resolved jsval | Rejected err

record call_state =
  timeoutId :: bool
  completed :: bool
  call :: bool
  listening :: bool
  cancels :: nat
  settled :: "outcome list"

definition Error :: "string \<Rightarrow> err" where
  "Error msg = \<lparr> err_code = JUndefined, err_name = ''Error'', err_message = msg \<rparr>"

text \<open>
  \<^verbatim>\<open>
  const cleanup = (cancelCall = false) => {
    if (timeoutId) { clearTimeout(timeoutId); timeoutId = null; }
    if (cancelCall && call && !completed) {
      try { if (typeof call.cancel === 'function') call.cancel(); } catch (e) {}
    }
  };
  \<close>
\<close>

definition cleanup :: "bool \<Rightarrow> call_state \<Rightarrow> call_state" where
  "cleanup cancelCall s =
     (let s1 = (if timeoutId s then s\<lparr> timeoutId := False \<rparr> else s)
      in if cancelCall \<and> call s1 \<and> \<not> completed s1 then s1\<lparr> cancels := cancels s1 + 1 \<rparr> else s1)"

text \<open>
  \<^verbatim>\<open>
  const finish = (error, response) => {
    if (completed) return;
    completed = true;
    cleanup(false);
    if (error) reject(error); else resolve(response);
  };
  \<close>
\<close>

definition finish :: "err option \<Rightarrow> jsval \<Rightarrow> call_state \<Rightarrow> call_state" where
  "finish error response s =
     (if completed s then s
      else
        let s1 = cleanup False (s\<lparr> completed := True \<rparr>)
        in case error of
             Some e \<Rightarrow> s1\<lparr> settled := settled s1 @ [Rejected e] \<rparr>
           | None \<Rightarrow> s1\<lparr> settled := settled s1 @ [Resolved response] \<rparr>)"

text \<open>
  How the body of the promise runs: there is no client; the method is not a
  function of the client; issuing the call throws; or the call is issued, and the
  object returned has an \<^verbatim>\<open>on\<close> function or not.
\<close>

datatype call_setup = NoClient | NoMethod | Throws err | Issued bool

definition initial_state :: call_state where
  "initial_state = \<lparr> timeoutId = False, completed = False, call = False, listening = False,
     cancels = 0, settled = [] \<rparr>"

text \<open>
  \<^verbatim>\<open>
  if (!grpcClient) return reject(new Error('gRPC client not initialized'));
  ...
  timeoutId = setTimeout(() => { ... }, timeoutMs);
  try {
    if (typeof grpcClient[method] !== 'function') {
      cleanup(false);
      return reject(new Error(`gRPC method ${method} does not exist`));
    }
    ...
    call = grpcClient[method](request, metadata, options, (error, response) => { ... });
    if (call && typeof call.on === 'function') { call.on('error', ...); call.on('status', ...); }
  } catch (error) {
    cleanup(false);
    finish(error, null);
  }
  \<close>
\<close>

definition grpcCall_start :: "string \<Rightarrow> call_setup \<Rightarrow> call_state" where
  "grpcCall_start method st =
     (case st of
        NoClient \<Rightarrow> initial_state\<lparr> settled := [Rejected (Error ''gRPC client not initialized'')] \<rparr>
      | NoMethod \<Rightarrow>
          (let s1 = cleanup False (initial_state\<lparr> timeoutId := True \<rparr>)
           in s1\<lparr> settled := settled s1 @ [Rejected (Error (''gRPC method '' @ method @ '' does not exist''))] \<rparr>)
      | Throws e \<Rightarrow> finish (Some e) JNull (cleanup False (initial_state\<lparr> timeoutId := True \<rparr>))
      | Issued has_on \<Rightarrow> initial_state\<lparr> timeoutId := True, call := True, listening := has_on \<rparr>)"

text \<open>
  What can happen afterwards: the callback of the call is invoked, the call emits
  \<^verbatim>\<open>'error'\<close>, the call emits \<^verbatim>\<open>'status'\<close> (a code and its details), the timer
  fires. The callback exists only once the call is issued, the listeners only once
  registered, and a timer fires only while pending.
  \<^verbatim>\<open>
  (error, response) => { if (!completed) finish(error, response); }
  call.on('error', (error) => { if (!completed) finish(error, null); });
  call.on('status', (status) => {
    if (status.code !== grpc.status.OK && !completed && status.code !== grpc.status.CANCELLED) {
      const errorMsg = status.details || `gRPC call failed with code ${status.code}`;
      finish(new Error(errorMsg), null);
    }
  });
  setTimeout(() => {
    if (!completed) {
      cleanup(true);
      finish(new Error(`gRPC call ${method} timed out after ${timeoutMs}ms`));
    }
  }, timeoutMs);
  \<close>
  \<^verbatim>\<open>call.cancel()\<close> is a request to the transport; what it leads to arrives as
  later events.
\<close>

datatype grpc_event =
    Callback "err option" jsval
  | ErrorEvent err
  | StatusEvent int string
  | TimerFires

definition timeout_error :: "string \<Rightarrow> int \<Rightarrow> err" where
  "timeout_error method timeoutMs =
     Error (''gRPC call '' @ method @ '' timed out after '' @ string_of_int timeoutMs @ ''ms'')"

fun step :: "string \<Rightarrow> int \<Rightarrow> call_state \<Rightarrow> grpc_event \<Rightarrow> call_state" where
  "step method timeoutMs s (Callback error response) =
     (if call s then (if \<not> completed s then finish error response s else s) else s)"
| "step method timeoutMs s (ErrorEvent error) =
     (if listening s then (if \<not> completed s then finish (Some error) JNull s else s) else s)"
| "step method timeoutMs s (StatusEvent code' details) =
     (if listening s then
        (if code' \<noteq> OK \<and> \<not> completed s \<and> code' \<noteq> CANCELLED
         then finish (Some (Error (if details \<noteq> [] then details
                                    else ''gRPC call failed with code '' @ string_of_int code'))) JNull s
         else s)
      else s)"
| "step method timeoutMs s TimerFires =
     (if timeoutId s then
        (if \<not> completed s then finish (Some (timeout_error method timeoutMs)) JUndefined (cleanup True s)
         else s)
      else s)"

fun run_events :: "string \<Rightarrow> int \<Rightarrow> call_state \<Rightarrow> grpc_event list \<Rightarrow> call_state" where
  "run_events method timeoutMs s [] = s"
| "run_events method timeoutMs s (e # es) = run_events method timeoutMs (step method timeoutMs s e) es"

text \<open>The whole life of one call: the body of the promise, then the events.\<close>

definition grpcCall :: "string \<Rightarrow> int \<Rightarrow> call_setup \<Rightarrow> grpc_event list \<Rightarrow> call_state" where
  "grpcCall method timeoutMs st es = run_events method timeoutMs (grpcCall_start method st) es"


section \<open>The launch endpoint\<close>

text \<open>
  Property access. \<open>get_prop v name\<close> is \<^verbatim>\<open>v?.name\<close>; it is also \<^verbatim>\<open>v.name\<close> when
  \<open>v\<close> is neither \<^verbatim>\<open>null\<close> nor \<^verbatim>\<open>undefined\<close> (on those, \<^verbatim>\<open>v.name\<close> throws a
  \<^verbatim>\<open>TypeError\<close>, which the handlers below write out). The properties read are
  fields of decoded messages, where a key occurs once.
\<close>

fun get_prop :: "jsval \<Rightarrow> string \<Rightarrow> jsval" where
  "get_prop (JObj kvs) name = (case map_of kvs name of Some v \<Rightarrow> v | None \<Rightarrow> JUndefined)"
| "get_prop v name = JUndefined"

definition TypeError :: err where
  "TypeError = \<lparr> err_code = JUndefined, err_name = ''TypeError'',
     err_message = ''Cannot read properties of undefined'' \<rparr>"

text \<open>
  The body of a launch request after
  \<^verbatim>\<open>const { block_id, compute_capacity, input_path, elf_path } = req.body\<close>, with the
  client key (\<^verbatim>\<open>req.ip || req.connection.remoteAddress || 'unknown'\<close>) and the
  clock reading of the rate limiter.
\<close>

record launch_request =
  client_key :: string
  arrival :: int
  block_id :: jsval
  compute_capacity :: jsval
  input_path :: jsval
  elf_path :: jsval

text \<open>
  The coordinator, as the outcomes of the three calls the handler awaits: each
  \<^verbatim>\<open>await grpcCall(...)\<close> either throws the error the promise was rejected with
  (\<open>Inl\<close>) or gives the response (\<open>Inr\<close>). What \<^verbatim>\<open>LaunchProof\<close> is sent is the
  block id, the capacity and the input path.
\<close>

record coordinator =
  SystemStatus :: "err + jsval"
  JobsList :: "err + jsval"
  LaunchProof :: "string \<Rightarrow> int option \<Rightarrow> string \<Rightarrow> err + jsval"

text \<open>
  What a handler does that can be seen from outside, in order: the RPCs it issues
  (by method name) and the audit events it logs (the event and, for a rejection, its
  reason).
\<close>

datatype action = Rpc string | Audit string string

datatype body = ErrorBody string | RateLimitBody int int | LaunchOk string

record http_response =
  status :: nat
  json :: body

text \<open>
  The validation part of the handler: the first check that fails gives the 400
  message and the audit reason.
  \<^verbatim>\<open>
  if (!block_id || !compute_capacity || !input_path) { ... 400 ... 'missing_fields' ... return; }
  const blockIdValidation = validateJobId(block_id);
  if (!blockIdValidation.valid) { ... `Invalid block_id: ${blockIdValidation.error}`, 400 ... }
  const capacityValidation = validateComputeCapacity(compute_capacity);
  if (!capacityValidation.valid) { ... capacityValidation.error, 400 ... }
  const pathValidation = validatePath(input_path, 'input');
  if (!pathValidation.valid) { ... `Invalid input_path: ${pathValidation.error}`, 400 ... }
  if (elf_path) {
    const elfPathValidation = validatePath(elf_path, 'elf');
    if (!elfPathValidation.valid) { ... `Invalid elf_path: ${elfPathValidation.error}`, 400 ... }
  }
  \<close>
\<close>

definition launch_validation :: "config \<Rightarrow> node \<Rightarrow> launch_request \<Rightarrow> (string \<times> string) option" where
  "launch_validation cfg nd req =
     (if \<not> truthy (block_id req) \<or> \<not> truthy (compute_capacity req) \<or> \<not> truthy (input_path req)
        then Some (''Missing required fields: block_id, compute_capacity, input_path'', ''missing_fields'')
      else case validateJobId (block_id req) of
        Invalid e \<Rightarrow> Some (''Invalid block_id: '' @ e, ''invalid_block_id'')
      | Valid \<Rightarrow>
     (case validateComputeCapacity cfg nd (compute_capacity req) of
        Invalid e \<Rightarrow> Some (e, ''invalid_capacity'')
      | Valid \<Rightarrow>
     (case validatePath cfg nd (input_path req) ''input'' of
        Invalid e \<Rightarrow> Some (''Invalid input_path: '' @ e, ''invalid_input_path'')
      | Valid \<Rightarrow>
     (if truthy (elf_path req) then
        (case validatePath cfg nd (elf_path req) ''elf'' of
           Invalid e \<Rightarrow> Some (''Invalid elf_path: '' @ e, ''invalid_elf_path'')
         | Valid \<Rightarrow> None)
      else None))))"

text \<open>
  \<^verbatim>\<open>
  const totalWorkers = systemStatus.result?.status?.total_workers || systemStatus.status?.total_workers || 0;
  const idleWorkers = systemStatus.result?.status?.idle_workers || systemStatus.status?.idle_workers || 0;
  \<close>
\<close>

definition workers_field :: "jsval \<Rightarrow> string \<Rightarrow> jsval" where
  "workers_field systemStatus field =
     js_or (js_or (get_prop (get_prop (get_prop systemStatus ''result'') ''status'') field)
                  (get_prop (get_prop systemStatus ''status'') field))
           (JNum 0)"

text \<open>
  \<^verbatim>\<open>
  const jobs = existingJobs.result?.jobs_list?.jobs || existingJobs.jobs_list?.jobs || existingJobs.jobs || [];
  \<close>
\<close>

definition jobs_of :: "jsval \<Rightarrow> jsval" where
  "jobs_of existingJobs =
     js_or (js_or (js_or (get_prop (get_prop (get_prop existingJobs ''result'') ''jobs_list'') ''jobs'')
                         (get_prop (get_prop existingJobs ''jobs_list'') ''jobs''))
                  (get_prop existingJobs ''jobs''))
           (JArr [])"

text \<open>
  \<^verbatim>\<open>
  jobs.find(job => {
    const jobBlockId = job.block_id || job.block?.block_id;
    return jobBlockId === block_id;
  })
  \<close>
  on the elements of an array: the first job that matches, \<open>Inr None\<close> when none
  does, and \<open>Inl\<close> when the callback throws on an element that is \<^verbatim>\<open>null\<close> or
  \<^verbatim>\<open>undefined\<close>.
\<close>

fun find_job :: "jsval list \<Rightarrow> jsval \<Rightarrow> err + jsval option" where
  "find_job [] b = Inr None"
| "find_job (job # jobs) b =
     (if nullish job then Inl TypeError
      else if strict_eq (js_or (get_prop job ''block_id'') (get_prop (get_prop job ''block'') ''block_id'')) b
        then Inr (Some job)
      else find_job jobs b)"

text \<open>
  The pre-launch checks, the inner \<^verbatim>\<open>try\<close> of the handler. The result is a
  rejection (status, message, audit reason), or \<open>Proceed\<close> when every check passed,
  or \<open>Swallowed\<close> when something inside threw and the \<^verbatim>\<open>catch\<close> took it:
  \<^verbatim>\<open>
  try {
    const systemStatus = await grpcCall('SystemStatus', {}, 5000);
    ...
    if (totalWorkers === 0) { ... sendError('No workers are connected ...', 503); ... return; }
    if (idleWorkers === 0) { ... sendError(`All ${totalWorkers} worker(s) are currently busy. ...`, 503); ... return; }
    const existingJobs = await grpcCall('JobsList', { active_only: true }, 5000);
    ...
    const duplicateBlockId = jobs.find(...);
    if (duplicateBlockId) { ... sendError(`A proof job with block_id "${block_id}" is already running. ...`, 409); ... return; }
  } catch (checkError) {
    if (DEBUG) console.error('[LaunchProof] Error checking system status:', checkError);
  }
  \<close>
\<close>

datatype guard = Reject nat string string | Proceed | Swallowed err

definition no_workers_message :: string where
  "no_workers_message = ''No workers are connected to the coordinator. Please start a worker first using the Worker Management panel.''"

definition all_busy_message :: "jsval \<Rightarrow> string" where
  "all_busy_message totalWorkers = ''All '' @ ToString totalWorkers @ '' worker(s) are currently busy. Please wait for workers to become idle or start additional workers.''"

definition duplicate_message :: "jsval \<Rightarrow> string" where
  "duplicate_message b = ''A proof job with block_id '' @ [CHR 0x22] @ ToString b @ [CHR 0x22]
     @ '' is already running. Please wait for it to complete or use a different block_id.''"

definition check_jobs :: "coordinator \<Rightarrow> jsval \<Rightarrow> guard" where
  "check_jobs coord b =
     (case JobsList coord of
        Inl checkError \<Rightarrow> Swallowed checkError
      | Inr existingJobs \<Rightarrow>
          if nullish existingJobs then Swallowed TypeError
          else case jobs_of existingJobs of
                 JArr jobs \<Rightarrow>
                   (case find_job jobs b of
                      Inl checkError \<Rightarrow> Swallowed checkError
                    | Inr None \<Rightarrow> Proceed
                    | Inr (Some duplicateBlockId) \<Rightarrow>
                        if truthy duplicateBlockId
                        then Reject 409 (duplicate_message b) ''duplicate_block_id''
                        else Proceed)
               | notArray \<Rightarrow> Swallowed TypeError)"

definition admission_guard :: "coordinator \<Rightarrow> jsval \<Rightarrow> action list \<times> guard" where
  "admission_guard coord b =
     (case SystemStatus coord of
        Inl checkError \<Rightarrow> ([Rpc ''SystemStatus''], Swallowed checkError)
      | Inr systemStatus \<Rightarrow>
          if nullish systemStatus then ([Rpc ''SystemStatus''], Swallowed TypeError)
          else
            let totalWorkers = workers_field systemStatus ''total_workers'';
                idleWorkers = workers_field systemStatus ''idle_workers''
            in if strict_eq totalWorkers (JNum 0)
                 then ([Rpc ''SystemStatus''], Reject 503 no_workers_message ''no_workers_available'')
               else if strict_eq idleWorkers (JNum 0)
                 then ([Rpc ''SystemStatus''], Reject 503 (all_busy_message totalWorkers) ''all_workers_busy'')
               else ([Rpc ''SystemStatus'', Rpc ''JobsList''], check_jobs coord b))"

text \<open>
  After a \<^verbatim>\<open>LaunchProof\<close> that resolved:
  \<^verbatim>\<open>
  let result = null;
  if (response.result?.launch_proof) result = response.result.launch_proof;
  else if (response.launch_proof) result = response.launch_proof;
  else if (response.result) result = response.result;
  else result = response;
  const jobId = result.job_id || result.result?.job_id || '';
  if (!jobId || jobId === '') { ... sendError('Coordinator returned empty job_id. ...', 500); return; }
  ...
  sendResponse({ job_id: String(jobId), success: true });
  \<close>
  \<open>Inl\<close> is the \<^verbatim>\<open>TypeError\<close> thrown when the response is \<^verbatim>\<open>null\<close> or
  \<^verbatim>\<open>undefined\<close>.
\<close>

definition launch_result :: "jsval \<Rightarrow> jsval" where
  "launch_result response =
     (if truthy (get_prop (get_prop response ''result'') ''launch_proof'')
        then get_prop (get_prop response ''result'') ''launch_proof''
      else if truthy (get_prop response ''launch_proof'') then get_prop response ''launch_proof''
      else if truthy (get_prop response ''result'') then get_prop response ''result''
      else response)"

definition launch_success :: "jsval \<Rightarrow> err + action list \<times> http_response" where
  "launch_success response =
     (if nullish response then Inl TypeError
      else
        let result = launch_result response;
            jobId = js_or (js_or (get_prop result ''job_id'') (get_prop (get_prop result ''result'') ''job_id'')) (JStr [])
        in if \<not> truthy jobId \<or> strict_eq jobId (JStr [])
             then Inr ([], \<lparr> status = 500, json = ErrorBody ''Coordinator returned empty job_id. The launch may have failed. Check coordinator logs.'' \<rparr>)
           else Inr ([Audit ''proof_launch_success'' []],
                     \<lparr> status = 200, json = LaunchOk (ToString jobId) \<rparr>))"

text \<open>
  The outer \<^verbatim>\<open>catch\<close>:
  \<^verbatim>\<open>
  const sanitized = sanitizeError(error);
  ...
  let errorMessage = sanitized; let statusCode = 500;
  if (sanitized.includes('timed out') || sanitized.includes('timeout') || error.code === grpc.status.DEADLINE_EXCEEDED) { ... 504 }
  else if (sanitized.includes('CANCELLED') || error.code === 1) { ... 503 }
  else if (sanitized.includes('No workers available') || sanitized.includes('insufficient')) { ... 503 }
  else if (sanitized.includes('not found') || sanitized.includes('file')) { errorMessage = 'File not found or invalid path'; statusCode = 400; }
  sendError(errorMessage, statusCode);
  \<close>
\<close>

definition launch_timeout_message :: string where
  "launch_timeout_message = ''Launch proof request timed out after 90 seconds. The coordinator may be slow, workers may not be available, or the coordinator is not responding. Check: 1) Coordinator is running, 2) Workers are registered and idle, 3) Compute capacity requested is available.''"

definition launch_cancelled_message :: string where
  "launch_cancelled_message = ''The coordinator cancelled the request. This usually means no workers are connected or available. Check: 1) Workers are running and connected (check Worker Management), 2) Workers show '' @ [CHR 0x22] @ ''Idle'' @ [CHR 0x22] @ '' status, 3) Coordinator is running properly. If workers show '' @ [CHR 0x22] @ ''channel closed'' @ [CHR 0x22] @ '' errors, try restarting the worker.''"

definition launch_failed :: "err \<Rightarrow> action list \<times> http_response" where
  "launch_failed error =
     (let sanitized = sanitizeError (Some error)
      in ([Audit ''proof_launch_failed'' sanitized],
          if str_includes sanitized ''timed out'' \<or> str_includes sanitized ''timeout''
               \<or> strict_eq (err_code error) (JNum DEADLINE_EXCEEDED)
            then \<lparr> status = 504, json = ErrorBody launch_timeout_message \<rparr>
          else if str_includes sanitized ''CANCELLED'' \<or> strict_eq (err_code error) (JNum 1)
            then \<lparr> status = 503, json = ErrorBody launch_cancelled_message \<rparr>
          else if str_includes sanitized ''No workers available'' \<or> str_includes sanitized ''insufficient''
            then \<lparr> status = 503, json = ErrorBody ''No workers available or insufficient compute capacity. Register workers first using the Worker Management panel.'' \<rparr>
          else if str_includes sanitized ''not found'' \<or> str_includes sanitized ''file''
            then \<lparr> status = 400, json = ErrorBody ''File not found or invalid path'' \<rparr>
          else \<lparr> status = 500, json = ErrorBody sanitized \<rparr>))"

text \<open>
  The launch itself: the audit event, the call, and its outcome.
  \<^verbatim>\<open>
  logAuditEvent('proof_launch_initiated', { ... });
  const launchRequest = { block_id: String(block_id), compute_capacity: Number(compute_capacity),
                          input_path: String(input_path) };
  const response = await grpcCall('LaunchProof', launchRequest, 90000);
  \<close>
\<close>

definition launch_proof :: "node \<Rightarrow> coordinator \<Rightarrow> launch_request \<Rightarrow> action list \<times> http_response" where
  "launch_proof nd coord req =
     (let outcome =
        (case LaunchProof coord (ToString (block_id req)) (Number nd (compute_capacity req))
                (ToString (input_path req)) of
           Inl error \<Rightarrow> launch_failed error
         | Inr response \<Rightarrow>
             (case launch_success response of
                Inl error \<Rightarrow> launch_failed error
              | Inr done \<Rightarrow> done))
      in ([Audit ''proof_launch_initiated'' [], Rpc ''LaunchProof''] @ fst outcome, snd outcome))"

text \<open>
  The handler \<^verbatim>\<open>async (req, res) => { ... }\<close> of \<^verbatim>\<open>POST /api/proof/launch\<close>:
  validation, the pre-launch checks, the launch. (The handler also arms a timer that
  answers 504 after 95 seconds if nothing was sent; elapsed time is not modelled.)
\<close>

definition launch_handler :: "config \<Rightarrow> node \<Rightarrow> coordinator \<Rightarrow> launch_request \<Rightarrow> action list \<times> http_response" where
  "launch_handler cfg nd coord req =
     (case launch_validation cfg nd req of
        Some (message, reason) \<Rightarrow>
          ([Audit ''proof_launch_rejected'' reason], \<lparr> status = 400, json = ErrorBody message \<rparr>)
      | None \<Rightarrow>
          (case admission_guard coord (block_id req) of
             (rpcs, Reject code' message reason) \<Rightarrow>
               (rpcs @ [Audit ''proof_launch_rejected'' reason], \<lparr> status = code', json = ErrorBody message \<rparr>)
           | (rpcs, Proceed) \<Rightarrow>
               (rpcs @ fst (launch_proof nd coord req), snd (launch_proof nd coord req))
           | (rpcs, Swallowed checkError) \<Rightarrow>
               (rpcs @ fst (launch_proof nd coord req), snd (launch_proof nd coord req))))"

text \<open>
  The route \<^verbatim>\<open>app.post('/api/proof/launch', rateLimit, async (req, res) => ...)\<close>:
  the middleware \<^verbatim>\<open>rateLimit\<close> runs first and calls the handler through
  \<^verbatim>\<open>next()\<close>, or answers 429 itself. The result is the new limiter map, what was
  done, and the response.
\<close>

definition launch_route ::
  "config \<Rightarrow> node \<Rightarrow> coordinator \<Rightarrow> rateLimitMap \<Rightarrow> launch_request
     \<Rightarrow> rateLimitMap \<times> action list \<times> http_response" where
  "launch_route cfg nd coord m req =
     (case rateLimit cfg m (client_key req) (arrival req) of
        (m', Status429 limit window) \<Rightarrow> (m', [], \<lparr> status = 429, json = RateLimitBody limit window \<rparr>)
      | (m', Next) \<Rightarrow> (m', launch_handler cfg nd coord req))"

definition rpcs_of :: "action list \<Rightarrow> string list" where
  "rpcs_of acts = concat (map (\<lambda>a. case a of Rpc name \<Rightarrow> [name] | Audit ev reason \<Rightarrow> []) acts)"


section \<open>Binary discovery\<close>

text \<open>
  What discovery reads from the machine: the trimmed output of \<^verbatim>\<open>which name\<close>
  (\<open>None\<close> when \<^verbatim>\<open>execSync\<close> throws, as it does when the command fails),
  \<^verbatim>\<open>fs.existsSync\<close>, \<^verbatim>\<open>process.env.HOME || ''\<close>, and the constant
  \<^verbatim>\<open>ZISK_REPO\<close> computed by \<^verbatim>\<open>findZiskRepo()\<close> at start (\<^verbatim>\<open>null\<close> or a
  non-empty path).
\<close>

record machine =
  which :: "string \<Rightarrow> string option"
  existsSync :: "string \<Rightarrow> bool"
  HOME :: string
  ZISK_REPO :: "string option"

text \<open>
  \<^verbatim>\<open>
  const commonPaths = [
    path.join(process.env.HOME || '', '.zisk', 'bin', name),
    path.join(process.env.HOME || '', '.local', 'bin', name),
    '/usr/local/bin/' + name,
    '/usr/bin/' + name,
  ];
  \<close>
  (\<open>name\<close> is \<^verbatim>\<open>zisk-coordinator\<close> in one function and \<^verbatim>\<open>zisk-worker\<close> in the
  other.)
\<close>

definition commonPaths :: "node \<Rightarrow> machine \<Rightarrow> string \<Rightarrow> string list" where
  "commonPaths nd mc name =
     [join nd [HOME mc, ''.zisk'', ''bin'', name],
      join nd [HOME mc, ''.local'', ''bin'', name],
      ''/usr/local/bin/'' @ name,
      ''/usr/bin/'' @ name]"

text \<open>\<^verbatim>\<open>for (const binPath of commonPaths) if (fs.existsSync(binPath)) return binPath;\<close>\<close>

fun first_existing :: "machine \<Rightarrow> string list \<Rightarrow> string option" where
  "first_existing mc [] = None"
| "first_existing mc (binPath # rest) = (if existsSync mc binPath then Some binPath else first_existing mc rest)"

text \<open>
  \<^verbatim>\<open>
  if (ZISK_REPO) {
    const bin = path.join(ZISK_REPO, 'target', 'release', name);
    const binDebug = path.join(ZISK_REPO, 'target', 'debug', name);
    if (fs.existsSync(bin)) return bin;
    if (fs.existsSync(binDebug)) return binDebug;
  }
  return null;
  \<close>
\<close>

definition repo_build :: "node \<Rightarrow> machine \<Rightarrow> string \<Rightarrow> string option" where
  "repo_build nd mc name =
     (case ZISK_REPO mc of
        None \<Rightarrow> None
      | Some repo \<Rightarrow>
          if existsSync mc (join nd [repo, ''target'', ''release'', name])
            then Some (join nd [repo, ''target'', ''release'', name])
          else if existsSync mc (join nd [repo, ''target'', ''debug'', name])
            then Some (join nd [repo, ''target'', ''debug'', name])
          else None)"

text \<open>
  \<^verbatim>\<open>
  function findCoordinatorBinary() {
    // 1. Check if binary is in PATH
    try {
      const whichResult = execSync('which zisk-coordinator', ...).trim();
      if (whichResult && fs.existsSync(whichResult)) return whichResult;
    } catch (e) { }
    // 2. Check common installation locations
    ...
    // 3. Check repository build directories (if repo found)
    ...
    return null;
  }
  \<close>
\<close>

definition findCoordinatorBinary :: "node \<Rightarrow> machine \<Rightarrow> string option" where
  "findCoordinatorBinary nd mc =
     (let whichResult = which mc ''zisk-coordinator''
      in if (case whichResult of None \<Rightarrow> False | Some w \<Rightarrow> w \<noteq> [] \<and> existsSync mc w)
           then whichResult
         else case first_existing mc (commonPaths nd mc ''zisk-coordinator'') of
                Some binPath \<Rightarrow> Some binPath
              | None \<Rightarrow> repo_build nd mc ''zisk-coordinator'')"

text \<open>
  \<^verbatim>\<open>
  function findWorkerBinary() {
    // 1. Check common installation locations first (most reliable)
    ...
    // 2. Check if binary is in PATH
    try {
      const whichResult = execSync('which zisk-worker', ...).trim();
      if (whichResult && fs.existsSync(whichResult)) return whichResult;
    } catch (e) { }
    // 3. Check repository build directories (if repo found)
    ...
    return null;
  }
  \<close>
\<close>

definition findWorkerBinary :: "node \<Rightarrow> machine \<Rightarrow> string option" where
  "findWorkerBinary nd mc =
     (case first_existing mc (commonPaths nd mc ''zisk-worker'') of
        Some binPath \<Rightarrow> Some binPath
      | None \<Rightarrow>
          let whichResult = which mc ''zisk-worker''
          in if (case whichResult of None \<Rightarrow> False | Some w \<Rightarrow> w \<noteq> [] \<and> existsSync mc w)
               then whichResult
             else repo_build nd mc ''zisk-worker'')"

text \<open>
  The candidates of each step as lists, and the four-step order of the
  specification: an override from configuration, the \<^verbatim>\<open>PATH\<close> lookup, the
  conventional directories, the build directories of the repository; the first
  candidate that exists is the result.
\<close>

definition path_candidates :: "machine \<Rightarrow> string \<Rightarrow> string list" where
  "path_candidates mc name = (case which mc name of None \<Rightarrow> [] | Some w \<Rightarrow> if w = [] then [] else [w])"

definition repo_candidates :: "node \<Rightarrow> machine \<Rightarrow> string \<Rightarrow> string list" where
  "repo_candidates nd mc name =
     (case ZISK_REPO mc of
        None \<Rightarrow> []
      | Some repo \<Rightarrow> [join nd [repo, ''target'', ''release'', name], join nd [repo, ''target'', ''debug'', name]])"

definition discovery_spec :: "node \<Rightarrow> machine \<Rightarrow> string option \<Rightarrow> string \<Rightarrow> string option" where
  "discovery_spec nd mc override name =
     first_existing mc
       ((case override of None \<Rightarrow> [] | Some p \<Rightarrow> [p])
        @ path_candidates mc name @ commonPaths nd mc name @ repo_candidates nd mc name)"

text \<open>
  A machine for the examples: the worker binary is installed in
  \<^verbatim>\<open>/usr/local/bin\<close> and also in \<^verbatim>\<open>/opt/zisk/bin\<close>, which is where \<^verbatim>\<open>which\<close>
  finds it.
\<close>

definition example_machine :: machine where
  "example_machine = \<lparr>
     which = (\<lambda>name. if name = ''zisk-worker'' then Some ''/opt/zisk/bin/zisk-worker''
                      else if name = ''zisk-coordinator'' then Some ''/opt/zisk/bin/zisk-coordinator''
                      else None),
     existsSync = (\<lambda>p. p \<in> set [''/opt/zisk/bin/zisk-worker'', ''/usr/local/bin/zisk-worker'',
                                   ''/opt/zisk/bin/zisk-coordinator'', ''/usr/local/bin/zisk-coordinator'']),
     HOME = ''/home/op'',
     ZISK_REPO = None \<rparr>"

section \<open>Starting a worker\<close>

























section \<open>Coordinators and requests for the examples\<close>

definition status_response :: "int \<Rightarrow> int \<Rightarrow> jsval" where
  "status_response n_total n_idle =
     JObj [(''status'', JObj [(''total_workers'', JNum n_total), (''idle_workers'', JNum n_idle)])]"

definition jobs_response :: "string list \<Rightarrow> jsval" where
  "jobs_response blocks =
     JObj [(''jobs_list'', JObj [(''jobs'',
        JArr (map (\<lambda>b. JObj [(''job_id'', JStr (''job-'' @ b)), (''block_id'', JStr b)]) blocks))])]"

definition launch_response :: jsval where
  "launch_response = JObj [(''launch_proof'', JObj [(''job_id'', JStr ''job-new'')])]"

text \<open>One worker, busy with the active job for block \<^verbatim>\<open>b1\<close>.\<close>

definition busy_coordinator :: coordinator where
  "busy_coordinator = \<lparr> SystemStatus = Inr (status_response 1 0),
     JobsList = Inr (jobs_response [''b1'']),
     LaunchProof = (\<lambda>b c p. Inr launch_response) \<rparr>"

text \<open>Two workers, one idle, and active jobs for the blocks \<^verbatim>\<open>b0\<close> and \<^verbatim>\<open>b1\<close>.\<close>

definition idle_coordinator :: coordinator where
  "idle_coordinator = \<lparr> SystemStatus = Inr (status_response 2 1),
     JobsList = Inr (jobs_response [''b0'', ''b1'']),
     LaunchProof = (\<lambda>b c p. Inr launch_response) \<rparr>"

text \<open>No worker at all.\<close>

definition empty_coordinator :: coordinator where
  "empty_coordinator = \<lparr> SystemStatus = Inr (status_response 0 0),
     JobsList = Inr (jobs_response []),
     LaunchProof = (\<lambda>b c p. Inr launch_response) \<rparr>"

text \<open>A coordinator whose status and job queries fail, while launches go through.\<close>

definition failing_coordinator :: coordinator where
  "failing_coordinator = \<lparr> SystemStatus = Inl (Error ''14 UNAVAILABLE''),
     JobsList = Inl (Error ''14 UNAVAILABLE''),
     LaunchProof = (\<lambda>b c p. Inr launch_response) \<rparr>"

text \<open>Idle workers, but the job query fails.\<close>

definition half_failing_coordinator :: coordinator where
  "half_failing_coordinator = \<lparr> SystemStatus = Inr (status_response 2 1),
     JobsList = Inl (Error ''14 UNAVAILABLE''),
     LaunchProof = (\<lambda>b c p. Inr launch_response) \<rparr>"

definition launch_b1 :: launch_request where
  "launch_b1 = \<lparr> client_key = ''10.0.0.7'', arrival = 1000, block_id = JStr ''b1'',
     compute_capacity = JNum 10, input_path = JStr ''/data/in.bin'', elf_path = JUndefined \<rparr>"

definition launch_b2 :: launch_request where
  "launch_b2 = launch_b1\<lparr> block_id := JStr ''b2'' \<rparr>"

text \<open>A request without a block id.\<close>

definition launch_invalid :: launch_request where
  "launch_invalid = launch_b1\<lparr> block_id := JUndefined \<rparr>"

text \<open>An error that is not a gRPC status: a connection refused by a remote host.\<close>

definition refused_error :: err where
  "refused_error = \<lparr> err_code = JStr ''ECONNREFUSED'', err_name = ''Error'',
     err_message = ''connect ECONNREFUSED 10.0.0.5:50051'' \<rparr>"


text \<open>A remote path that a file-system error carries in its message.\<close>

definition denied_error :: err where
  "denied_error = \<lparr> err_code = JStr ''EACCES'', err_name = ''Error'',
     err_message = ''EACCES: permission denied, scandir /var/lib/zisk/proofs'' \<rparr>"

text \<open>
  Limiter maps for the examples: no record at all, and the record of a client that
  has used its ten requests in the window that ends at 61000.
\<close>

definition no_records :: rateLimitMap where
  "no_records = Map.empty"

definition exhausted_records :: rateLimitMap where
  "exhausted_records = [''10.0.0.7'' \<mapsto> \<lparr> count = 10, resetTime = 61000 \<rparr>]"

text \<open>A limiter configured with a limit of zero requests per window.\<close>

definition zero_limit :: config where
  "zero_limit = default_config\<lparr> RATE_LIMIT_MAX_REQUESTS := 0 \<rparr>"

text \<open>
  What it is for an active job to carry the block id \<open>s\<close>: its \<^verbatim>\<open>block_id\<close> is
  \<open>s\<close>, or it has none (or an empty one) and the \<^verbatim>\<open>block_id\<close> of its \<^verbatim>\<open>block\<close> is
  \<open>s\<close>.
\<close>

definition carries_block_id :: "jsval \<Rightarrow> string \<Rightarrow> bool" where
  "carries_block_id job s =
     (get_prop job ''block_id'' = JStr s
      \<or> (\<not> truthy (get_prop job ''block_id'')
          \<and> get_prop (get_prop job ''block'') ''block_id'' = JStr s))"


section \<open>The two conditions of a call\<close>

text \<open>
  A call is pending (nothing settled, the timer held, not completed) or quiet
  (settled once, the timer released, and either completed or without call and
  listeners, so that no event reaches it).
\<close>

definition pending :: "call_state \<Rightarrow> bool" where
  "pending s = (settled s = [] \<and> timeoutId s \<and> \<not> completed s)"

definition quiet :: "call_state \<Rightarrow> bool" where
  "quiet s = (length (settled s) = 1 \<and> \<not> timeoutId s \<and> (completed s \<or> (\<not> call s \<and> \<not> listening s)))"

section \<open>Properties of the validators\<close>

lemma all_in_class_list_all: "all_in_class p s = list_all p s"
  by (induction s) auto

lemma test_plus_iff: "test_plus p s \<longleftrightarrow> s \<noteq> [] \<and> list_all p s"
  by (cases s) (auto simp: test_plus_def all_in_class_list_all)

text \<open>
  C5. For every input \<open>id\<close>, \<open>validateJobId id\<close> succeeds exactly when \<open>id\<close> is a
  string matching \<^verbatim>\<open>^[A-Za-z0-9_-]{1,128}$\<close> and is not one of the literal strings
  \<^verbatim>\<open>undefined\<close>, \<^verbatim>\<open>null\<close>, \<^verbatim>\<open>true\<close>, \<^verbatim>\<open>false\<close>.
\<close>

theorem validateJobId_iff_spec:
  "validateJobId v = Valid \<longleftrightarrow> jobid_accepted_spec v"
proof (cases v)
  case (JStr s)
  then show ?thesis
    by (auto simp: test_plus_iff matches_rep_def reserved_literals_def Suc_le_eq)
qed simp_all

theorem validateJobId_iff_spec_witness:
  "validateJobId (JStr ''block-42_a'') = Valid \<and> jobid_accepted_spec (JStr ''block-42_a'')
   \<and> validateJobId (JStr ''null'') \<noteq> Valid \<and> \<not> jobid_accepted_spec (JStr ''null'')
   \<and> validateJobId (JStr ''a b'') \<noteq> Valid \<and> \<not> jobid_accepted_spec (JStr ''a b'')
   \<and> validateJobId (JNum 7) \<noteq> Valid \<and> \<not> jobid_accepted_spec (JNum 7)"
proof -
  have a: "jobid_accepted_spec (JStr ''block-42_a'')"
    by (simp add: matches_rep_def reserved_literals_def jobid_char_def
        is_alnum_def in_range_def)
  have b: "\<not> jobid_accepted_spec (JStr ''null'')"
    by (simp add: reserved_literals_def)
  have c: "\<not> jobid_accepted_spec (JStr ''a b'')"
    by (simp add: matches_rep_def jobid_char_def is_alnum_def in_range_def)
  have d: "\<not> jobid_accepted_spec (JNum 7)" by simp
  from a b c d show ?thesis
    using validateJobId_iff_spec [of "JStr ''block-42_a''"]
      validateJobId_iff_spec [of "JStr ''null''"]
      validateJobId_iff_spec [of "JStr ''a b''"]
      validateJobId_iff_spec [of "JNum 7"]
    by blast
qed

subsection \<open>Paths\<close>

lemma test_plus_tail:
  assumes "test_plus path_char p" "startsWith p ''/''" "\<not> match_abs p"
  shows "p = ''/''"
proof -
  from assms(2) obtain cs where p: "p = CHR ''/'' # cs"
    by (cases p) (auto simp: startsWith_def)
  with assms(1) have "list_all path_char cs" by (simp add: test_plus_iff)
  with assms(3) p show ?thesis by (cases cs) (auto simp: match_abs_def test_plus_iff)
qed

lemma some_allowed_eq: "some_allowed nd roots p = list_ex (\<lambda>r. prefix (resolve nd r) (resolve nd p)) roots"
  by (simp add: some_allowed_def startsWith_def)

text \<open>
  C6, as the code has it. For every string \<open>p\<close>, \<open>validatePath p kind\<close> rejects exactly
  when \<open>p\<close> is empty, longer than 512 characters, contains \<^verbatim>\<open>..\<close> or \<^verbatim>\<open>//\<close>,
  contains a character outside \<^verbatim>\<open>[A-Za-z0-9/._-]\<close>, is the single slash
  \<^verbatim>\<open>/\<close>, or (when an allow-list of roots is configured and the kind is
  \<^verbatim>\<open>input\<close>) resolves to a path that no resolved allowed root is a prefix of.
\<close>

theorem validatePath_rejects_iff:
  "validatePath cfg nd (JStr p) kind \<noteq> Valid \<longleftrightarrow> path_rejected_spec cfg nd p kind \<or> p = ''/''"
proof (cases "p = ''/''")
  case True
  then show ?thesis by (simp add: match_abs_def startsWith_def test_plus_def split: option.splits)
next
  case False
  then have "\<not> (test_plus path_char p \<and> startsWith p ''/'' \<and> \<not> match_abs p)"
    using test_plus_tail by blast
  then show ?thesis using False
    by (auto simp: path_rejected_spec_def test_plus_iff some_allowed_eq split: option.splits)
qed

text \<open>
  C6 as stated fails at the path \<^verbatim>\<open>/\<close>: with no allow-list it meets none of the
  listed conditions, and the check for absolute paths rejects it.
\<close>

theorem validatePath_root_counterexample:
  "validatePath default_config example_node (JStr ''/'') ''input'' \<noteq> Valid
   \<and> \<not> path_rejected_spec default_config example_node ''/'' ''input''"
  by (simp add: default_config_def path_rejected_spec_def match_abs_def startsWith_def
      test_plus_def path_char_def)

text \<open>An accepted path and a rejected one.\<close>

theorem validatePath_rejects_iff_witness:
  "validatePath default_config example_node (JStr ''/data/in.bin'') ''input'' = Valid
   \<and> \<not> path_rejected_spec default_config example_node ''/data/in.bin'' ''input''
   \<and> validatePath default_config example_node (JStr ''/data/../etc'') ''input'' \<noteq> Valid
   \<and> path_rejected_spec default_config example_node ''/data/../etc'' ''input''"
proof -
  have a: "\<not> path_rejected_spec default_config example_node ''/data/in.bin'' ''input''"
    by (simp add: default_config_def path_rejected_spec_def path_char_def is_alnum_def in_range_def)
  have b: "path_rejected_spec default_config example_node ''/data/../etc'' ''input''"
    by (simp add: path_rejected_spec_def)
  from a b show ?thesis
    using validatePath_rejects_iff [of default_config example_node "''/data/in.bin''" "''input''"]
      validatePath_rejects_iff [of default_config example_node "''/data/../etc''" "''input''"]
    by auto
qed

section \<open>Properties of error sanitization\<close>

text \<open>
  C4. The claim is that the string returned by \<open>sanitizeError\<close> contains no host:port
  pair and no filesystem path. The code returns every message that contains a colon
  unchanged but for \<^verbatim>\<open>localhost:port\<close> and \<^verbatim>\<open>127.0.0.1:port\<close>: a connection
  error naming another host, and a file-system error naming a directory, come back
  as they are.
\<close>

theorem sanitizeError_passes_host_port:
  "sanitizeError (Some refused_error) = ''connect ECONNREFUSED 10.0.0.5:50051''
   \<and> str_includes (sanitizeError (Some refused_error)) ''10.0.0.5:50051''
   \<and> sanitizeError (Some denied_error) = ''EACCES: permission denied, scandir /var/lib/zisk/proofs''"
proof -
  have a: "sanitizeError (Some refused_error) = ''connect ECONNREFUSED 10.0.0.5:50051''"
    by (simp add: sanitizeError_def refused_error_def strict_eq_def error_text_def
        replace_lit_digits.simps)
  have b: "sanitizeError (Some denied_error) = ''EACCES: permission denied, scandir /var/lib/zisk/proofs''"
    by (simp add: sanitizeError_def denied_error_def strict_eq_def error_text_def
        replace_lit_digits.simps)
  from a b show ?thesis by simp
qed

section \<open>Properties of the rate limiter\<close>

lemma rateLimit_other_key:
  "k' \<noteq> k \<Longrightarrow> fst (rateLimit cfg m k' t) k = m k"
  by (simp add: rateLimit_def split: option.splits)

lemma sweep_keeps:
  "m k = Some r \<Longrightarrow> t \<le> resetTime r \<Longrightarrow> sweep t m k = Some r"
  by (simp add: sweep_def)

lemma decisions_for_Cons:
  "decisions_for k ((k', d) # outs) = (if k' = k then d # decisions_for k outs else decisions_for k outs)"
  by (simp add: decisions_for_def)

lemma requests_of_simps:
  "requests_of k [] = 0"
  "requests_of k (Request k' t # es) = (if k' = k then Suc (requests_of k es) else requests_of k es)"
  "requests_of k (Sweep t # es) = requests_of k es"
  by (simp_all add: requests_of_def)

lemma in_window:
  assumes "m k = Some r" "1 \<le> count r" "count r \<le> RATE_LIMIT_MAX_REQUESTS cfg"
    and "\<forall>e \<in> set es. event_time e \<le> resetTime r"
  shows "decisions_for k (run_limiter cfg m es) =
     replicate (min (requests_of k es) (nat (RATE_LIMIT_MAX_REQUESTS cfg - count r))) Next
     @ replicate (requests_of k es - nat (RATE_LIMIT_MAX_REQUESTS cfg - count r))
         (Status429 (RATE_LIMIT_MAX_REQUESTS cfg) (RATE_LIMIT_WINDOW_MS cfg))"
  using assms
proof (induction es arbitrary: m r)
  case Nil
  then show ?case by (simp add: decisions_for_def requests_of_def)
next
  case (Cons e es)
  show ?case
  proof (cases e)
    case (Sweep t)
    with Cons.prems have "sweep t m k = Some r" by (simp add: sweep_keeps)
    from Cons.IH [of "sweep t m" r] this Cons.prems Sweep show ?thesis
      by (simp add: requests_of_simps)
  next
    case (Request k' t)
    show ?thesis
    proof (cases "k' = k")
      case False
      then have "fst (rateLimit cfg m k' t) k = Some r"
        using Cons.prems(1) by (simp add: rateLimit_other_key)
      from Cons.IH [of "fst (rateLimit cfg m k' t)" r] this Cons.prems Request False show ?thesis
        by (simp add: requests_of_simps decisions_for_Cons)
    next
      case True
      have t: "t \<le> resetTime r" using Cons.prems(4) Request by simp
      show ?thesis
      proof (cases "count r \<ge> RATE_LIMIT_MAX_REQUESTS cfg")
        case full: True
        then have rl: "rateLimit cfg m k t =
            (m, Status429 (RATE_LIMIT_MAX_REQUESTS cfg) (RATE_LIMIT_WINDOW_MS cfg))"
          using Cons.prems(1) t by (simp add: rateLimit_def)
        have "decisions_for k (run_limiter cfg m es) = 
            replicate (min (requests_of k es) (nat (RATE_LIMIT_MAX_REQUESTS cfg - count r))) Next
     @ replicate (requests_of k es - nat (RATE_LIMIT_MAX_REQUESTS cfg - count r))
         (Status429 (RATE_LIMIT_MAX_REQUESTS cfg) (RATE_LIMIT_WINDOW_MS cfg))"
          using Cons.IH [of m r] Cons.prems by simp
        then show ?thesis using rl True Request full
          by (simp add: requests_of_simps decisions_for_Cons)
      next
        case room: False
        let ?r' = "r\<lparr> count := count r + 1 \<rparr>"
        let ?m' = "m(k \<mapsto> ?r')"
        have rl: "rateLimit cfg m k t = (?m', Next)"
          using Cons.prems(1) t room by (simp add: rateLimit_def)
        have "decisions_for k (run_limiter cfg ?m' es) = 
            replicate (min (requests_of k es) (nat (RATE_LIMIT_MAX_REQUESTS cfg - count ?r'))) Next
     @ replicate (requests_of k es - nat (RATE_LIMIT_MAX_REQUESTS cfg - count ?r'))
         (Status429 (RATE_LIMIT_MAX_REQUESTS cfg) (RATE_LIMIT_WINDOW_MS cfg))"
        proof (rule Cons.IH)
          show "?m' k = Some ?r'" by simp
          show "1 \<le> count ?r'" using Cons.prems(2) by simp
          show "count ?r' \<le> RATE_LIMIT_MAX_REQUESTS cfg" using room by simp
          show "\<forall>e\<in>set es. event_time e \<le> resetTime ?r'" using Cons.prems(4) by simp
        qed
        moreover have "nat (RATE_LIMIT_MAX_REQUESTS cfg - count r) = Suc (nat (RATE_LIMIT_MAX_REQUESTS cfg - count ?r'))"
          using room by simp
        ultimately show ?thesis using rl True Request
          by (simp add: requests_of_simps decisions_for_Cons)
      qed
    qed
  qed
qed

lemma open_window:
  assumes "window_opens m k t0"
  shows "rateLimit cfg m k t0 =
     (m(k \<mapsto> \<lparr> count = 1, resetTime = t0 + RATE_LIMIT_WINDOW_MS cfg \<rparr>), Next)"
  using assms by (auto simp: window_opens_def rateLimit_def split: option.splits)

text \<open>
  C7, as the code has it. When the configured limit is at least one, for a fixed
  client key: from the request that opens a window (no record, or an expired one),
  through any later requests and sweeps that happen no later than the window's reset
  time, the requests of that key are admitted until exactly
  \<open>RATE_LIMIT_MAX_REQUESTS\<close> have been, and every further one (the next one first) is
  answered 429 with the configured limit and window.
\<close>

theorem rateLimit_window:
  assumes "1 \<le> RATE_LIMIT_MAX_REQUESTS cfg"
    and "window_opens m k t0"
    and "\<forall>e \<in> set es. event_time e \<le> t0 + RATE_LIMIT_WINDOW_MS cfg"
  shows "decisions_for k (run_limiter cfg m (Request k t0 # es)) =
     replicate (min (Suc (requests_of k es)) (nat (RATE_LIMIT_MAX_REQUESTS cfg))) Next
     @ replicate (Suc (requests_of k es) - nat (RATE_LIMIT_MAX_REQUESTS cfg))
         (Status429 (RATE_LIMIT_MAX_REQUESTS cfg) (RATE_LIMIT_WINDOW_MS cfg))"
proof -
  let ?r = "\<lparr> count = 1, resetTime = t0 + RATE_LIMIT_WINDOW_MS cfg \<rparr>"
  let ?m = "m(k \<mapsto> ?r)"
  have "decisions_for k (run_limiter cfg ?m es) =
     replicate (min (requests_of k es) (nat (RATE_LIMIT_MAX_REQUESTS cfg - count ?r))) Next
     @ replicate (requests_of k es - nat (RATE_LIMIT_MAX_REQUESTS cfg - count ?r))
         (Status429 (RATE_LIMIT_MAX_REQUESTS cfg) (RATE_LIMIT_WINDOW_MS cfg))"
  proof (rule in_window)
    show "?m k = Some ?r" by simp
    show "1 \<le> count ?r" by simp
    show "count ?r \<le> RATE_LIMIT_MAX_REQUESTS cfg" using assms(1) by simp
    show "\<forall>e\<in>set es. event_time e \<le> resetTime ?r" using assms(3) by simp
  qed
  moreover have "nat (RATE_LIMIT_MAX_REQUESTS cfg) = Suc (nat (RATE_LIMIT_MAX_REQUESTS cfg - 1))"
    using assms(1) by simp
  ultimately show ?thesis
    using open_window [OF assms(2), of cfg] by (simp add: decisions_for_Cons)
qed

text \<open>
  C7 as stated fails for a limit of zero: the request that opens a window is
  admitted without a look at the limit, so one admission succeeds where the claim
  has none, and the first request is not rejected.
\<close>

theorem rateLimit_zero_limit_counterexample:
  "RATE_LIMIT_MAX_REQUESTS zero_limit = 0
   \<and> window_opens no_records ''10.0.0.7'' 1000
   \<and> decisions_for ''10.0.0.7'' (run_limiter zero_limit no_records
        [Request ''10.0.0.7'' 1000, Request ''10.0.0.7'' 1500])
      = [Next, Status429 0 60000]"
  by (simp add: zero_limit_def default_config_def window_opens_def no_records_def
      decisions_for_def rateLimit_def)

text \<open>
  Two requests per minute: of four requests of one client by the end of the window,
  with a sweep and another client in between, two pass and two are answered 429.
\<close>

theorem rateLimit_window_witness:
  "1 \<le> RATE_LIMIT_MAX_REQUESTS two_per_minute
   \<and> window_opens no_records ''10.0.0.7'' 1000
   \<and> decisions_for ''10.0.0.7'' (run_limiter two_per_minute no_records
        [Request ''10.0.0.7'' 1000, Request ''10.0.0.7'' 1500, Sweep 2000, Request ''10.0.0.9'' 2100,
         Request ''10.0.0.7'' 3000, Request ''10.0.0.7'' 61000])
      = [Next, Next, Status429 2 60000, Status429 2 60000]"
proof -
  have h1: "1 \<le> RATE_LIMIT_MAX_REQUESTS two_per_minute"
    by (simp add: two_per_minute_def default_config_def)
  have h2: "window_opens no_records ''10.0.0.7'' 1000"
    by (simp add: window_opens_def no_records_def)
  have h3: "\<forall>e \<in> set [Request ''10.0.0.7'' 1500, Sweep 2000, Request ''10.0.0.9'' 2100,
         Request ''10.0.0.7'' 3000, Request ''10.0.0.7'' 61000].
       event_time e \<le> 1000 + RATE_LIMIT_WINDOW_MS two_per_minute"
    by (simp add: two_per_minute_def default_config_def)
  have n: "requests_of ''10.0.0.7'' [Request ''10.0.0.7'' 1500, Sweep 2000, Request ''10.0.0.9'' 2100,
         Request ''10.0.0.7'' 3000, Request ''10.0.0.7'' 61000] = 3"
    by (simp add: requests_of_def)
  have c: "RATE_LIMIT_MAX_REQUESTS two_per_minute = 2" "RATE_LIMIT_WINDOW_MS two_per_minute = 60000"
    by (simp_all add: two_per_minute_def default_config_def)
  have r: "replicate (min (Suc 3) (nat 2)) Next @ replicate (Suc 3 - nat 2) (Status429 2 60000)
      = [Next, Next, Status429 2 60000, Status429 2 60000]"
    by (simp add: eval_nat_numeral)
  from h1 h2 show ?thesis
    using rateLimit_window [OF h1 h2 h3] by (simp only: n c r simp_thms)
qed


section \<open>Properties of the RPC call wrapper\<close>

lemma start_inv: "pending (grpcCall_start method st) \<or> quiet (grpcCall_start method st)"
  by (cases st) (auto simp: grpcCall_start_def initial_state_def pending_def quiet_def cleanup_def
      finish_def Let_def)

lemma finish_pending: "pending s \<Longrightarrow> quiet (finish error response s)"
  by (cases error) (auto simp: pending_def quiet_def finish_def cleanup_def Let_def)

lemma cleanup_pending:
  "pending s \<Longrightarrow> settled (cleanup b s) = [] \<and> \<not> completed (cleanup b s)"
  by (auto simp: pending_def cleanup_def Let_def)

lemma finish_after_cleanup: "pending s \<Longrightarrow> quiet (finish error response (cleanup b s))"
  by (cases error) (auto simp: pending_def quiet_def finish_def cleanup_def Let_def)

lemma step_quiet: "quiet s \<Longrightarrow> step method timeoutMs s e = s"
  by (cases e) (auto simp: quiet_def finish_def)

lemma step_inv: "pending s \<Longrightarrow> pending (step method timeoutMs s e) \<or> quiet (step method timeoutMs s e)"
  by (cases e) (auto simp: finish_pending finish_after_cleanup)

lemma run_quiet: "quiet s \<Longrightarrow> run_events method timeoutMs s es = s"
  by (induction es) (auto simp: step_quiet)

lemma run_inv:
  "pending s \<or> quiet s \<Longrightarrow> pending (run_events method timeoutMs s es) \<or> quiet (run_events method timeoutMs s es)"
proof (induction es arbitrary: s)
  case Nil
  then show ?case by simp
next
  case (Cons e es)
  have "pending (step method timeoutMs s e) \<or> quiet (step method timeoutMs s e)"
    using Cons.prems step_inv step_quiet by metis
  then show ?case using Cons.IH by simp
qed

lemma run_append: "run_events method timeoutMs s (es @ fs) = run_events method timeoutMs (run_events method timeoutMs s es) fs"
  by (induction es arbitrary: s) auto

lemma timer_settles: "pending s \<Longrightarrow> quiet (step method timeoutMs s TimerFires)"
  by (simp add: pending_def finish_after_cleanup)

text \<open>
  C2. For every way the body of the promise runs and every sequence of events
  (callback, \<^verbatim>\<open>'error'\<close>, \<^verbatim>\<open>'status'\<close>, timer) in any order: \<^verbatim>\<open>resolve\<close> and
  \<^verbatim>\<open>reject\<close> are called at most once altogether; once the timer has had its turn
  they have been called exactly once; and from the moment the promise is settled the
  timer is released and every later event leaves the state as it is. Whichever comes
  first on an issued call wins: a callback with a response resolves with it, a
  callback with an error rejects with it, the timer rejects with the timeout error.
\<close>

theorem grpcCall_settles_once:
  "length (settled (grpcCall method timeoutMs st es)) \<le> 1
   \<and> length (settled (grpcCall method timeoutMs st (es @ [TimerFires]))) = 1
   \<and> (settled (grpcCall method timeoutMs st es) \<noteq> [] \<longrightarrow>
        \<not> timeoutId (grpcCall method timeoutMs st es)
        \<and> grpcCall method timeoutMs st (es @ later) = grpcCall method timeoutMs st es)
   \<and> settled (grpcCall method timeoutMs (Issued has_on) (Callback None response # es)) = [Resolved response]
   \<and> settled (grpcCall method timeoutMs (Issued has_on) (Callback (Some error) response # es)) = [Rejected error]
   \<and> settled (grpcCall method timeoutMs (Issued has_on) (TimerFires # es))
        = [Rejected (timeout_error method timeoutMs)]"
proof -
  let ?s = "grpcCall method timeoutMs st es"
  have inv: "pending ?s \<or> quiet ?s"
    unfolding grpcCall_def using start_inv run_inv by blast
  have a: "length (settled ?s) \<le> 1"
    using inv by (auto simp: pending_def quiet_def)
  have "quiet (step method timeoutMs ?s TimerFires)"
    using inv timer_settles step_quiet by metis
  then have b: "length (settled (grpcCall method timeoutMs st (es @ [TimerFires]))) = 1"
    by (simp add: grpcCall_def run_append quiet_def)
  have c: "settled ?s \<noteq> [] \<longrightarrow> \<not> timeoutId ?s
        \<and> grpcCall method timeoutMs st (es @ later) = ?s"
  proof
    assume "settled ?s \<noteq> []"
    with inv have q: "quiet ?s" by (auto simp: pending_def)
    then have "run_events method timeoutMs ?s later = ?s" by (rule run_quiet)
    then show "\<not> timeoutId ?s \<and> grpcCall method timeoutMs st (es @ later) = ?s"
      using q by (simp add: grpcCall_def run_append quiet_def)
  qed
  let ?i = "grpcCall_start method (Issued has_on)"
  have p: "pending ?i" and ci: "call ?i"
    by (simp_all add: grpcCall_start_def initial_state_def pending_def)
  have first: "settled (grpcCall method timeoutMs (Issued has_on) (e # es)) = settled (step method timeoutMs ?i e)"
    if "quiet (step method timeoutMs ?i e)" for e
    using that by (simp add: grpcCall_def run_quiet)
  have d: "settled (grpcCall method timeoutMs (Issued has_on) (Callback None response # es)) = [Resolved response]"
    using first [of "Callback None response"] p ci finish_pending [OF p, of None response]
    by (simp add: pending_def finish_def cleanup_def Let_def)
  have e: "settled (grpcCall method timeoutMs (Issued has_on) (Callback (Some error) response # es)) = [Rejected error]"
    using first [of "Callback (Some error) response"] p ci finish_pending [OF p, of "Some error" response]
    by (simp add: pending_def finish_def cleanup_def Let_def)
  have f: "settled (grpcCall method timeoutMs (Issued has_on) (TimerFires # es))
        = [Rejected (timeout_error method timeoutMs)]"
    using first [of TimerFires] p timer_settles [OF p]
    by (simp add: pending_def finish_def cleanup_def Let_def)
  from a b c d e f show ?thesis by (intro conjI)
qed

text \<open>A response arrives first; the late error and the timer change nothing.\<close>

theorem grpcCall_settles_once_witness:
  "settled (grpcCall ''SystemStatus'' 5000 (Issued True) [StatusEvent OK [], Callback None (JObj [])])
     = [Resolved (JObj [])]
   \<and> \<not> timeoutId (grpcCall ''SystemStatus'' 5000 (Issued True) [StatusEvent OK [], Callback None (JObj [])])
   \<and> grpcCall ''SystemStatus'' 5000 (Issued True)
        ([StatusEvent OK [], Callback None (JObj [])] @ [ErrorEvent (Error ''late''), TimerFires])
      = grpcCall ''SystemStatus'' 5000 (Issued True) [StatusEvent OK [], Callback None (JObj [])]"
proof -
  have s: "settled (grpcCall ''SystemStatus'' 5000 (Issued True) [StatusEvent OK [], Callback None (JObj [])])
     = [Resolved (JObj [])]"
    by (simp add: grpcCall_def grpcCall_start_def initial_state_def finish_def cleanup_def)
  then have ne: "settled (grpcCall ''SystemStatus'' 5000 (Issued True) [StatusEvent OK [], Callback None (JObj [])]) \<noteq> []"
    by simp
  from s show ?thesis
    using grpcCall_settles_once [of "''SystemStatus''" 5000 "Issued True"
        "[StatusEvent OK [], Callback None (JObj [])]" "[ErrorEvent (Error ''late''), TimerFires]"] ne
    by simp
qed


section \<open>Properties of the launch endpoint\<close>

lemma rpcs_of_simps:
  "rpcs_of [] = []"
  "rpcs_of (Rpc name # acts) = name # rpcs_of acts"
  "rpcs_of (Audit ev reason # acts) = rpcs_of acts"
  "rpcs_of (xs @ ys) = rpcs_of xs @ rpcs_of ys"
  by (simp_all add: rpcs_of_def)

lemma validated_block_id:
  assumes "launch_validation cfg nd req = None"
  shows "\<exists>s. block_id req = JStr s \<and> s \<noteq> []"
proof -
  from assms have "validateJobId (block_id req) = Valid"
    by (auto simp: launch_validation_def split: if_splits validation.splits)
  then show ?thesis by (cases "block_id req") (auto split: if_splits)
qed

lemma matching_job_truthy:
  assumes "strict_eq (js_or (get_prop job ''block_id'') (get_prop (get_prop job ''block'') ''block_id'')) (JStr s)"
  shows "truthy job"
  using assms by (cases job) (auto simp: strict_eq_def js_or_def)

lemma find_job_found:
  "find_job jobs b = Inr (Some job) \<Longrightarrow>
     strict_eq (js_or (get_prop job ''block_id'') (get_prop (get_prop job ''block'') ''block_id'')) b"
  by (induction jobs) (auto split: if_splits)

lemma carries_matches:
  assumes "carries_block_id job s" "s \<noteq> []"
  shows "strict_eq (js_or (get_prop job ''block_id'') (get_prop (get_prop job ''block'') ''block_id'')) (JStr s)"
  using assms by (auto simp: carries_block_id_def js_or_def strict_eq_def)

lemma carries_not_nullish: "carries_block_id job s \<Longrightarrow> \<not> nullish job"
  by (cases job) (auto simp: carries_block_id_def nullish_def)

lemma find_job_finds:
  assumes "\<forall>j \<in> set front. \<not> nullish j" "carries_block_id job s" "s \<noteq> []"
  shows "\<exists>found. find_job (front @ job # rest) (JStr s) = Inr (Some found) \<and> truthy found"
  using assms(1)
proof (induction front)
  case Nil
  then show ?case
    using carries_matches [OF assms(2,3)] carries_not_nullish [OF assms(2)] matching_job_truthy
    by auto
next
  case (Cons j front)
  show ?case
  proof (cases "strict_eq (js_or (get_prop j ''block_id'') (get_prop (get_prop j ''block'') ''block_id'')) (JStr s)")
    case True
    then show ?thesis using Cons.prems matching_job_truthy [OF True] by simp
  next
    case False
    then show ?thesis using Cons by simp
  qed
qed

lemma launch_proof_rpcs: "rpcs_of (fst (launch_proof nd coord req)) = [''LaunchProof'']"
  by (auto simp: launch_proof_def Let_def rpcs_of_simps launch_failed_def launch_success_def
      split: sum.splits if_splits)

lemma launch_b1_valid: "launch_validation default_config example_node launch_b1 = None"
  by (simp add: launch_validation_def launch_b1_def default_config_def example_node_def
      validateComputeCapacity_def test_plus_def jobid_char_def path_char_def is_alnum_def
      in_range_def match_abs_def startsWith_def)

lemma launch_b2_valid: "launch_validation default_config example_node launch_b2 = None"
  by (simp add: launch_validation_def launch_b2_def launch_b1_def default_config_def example_node_def
      validateComputeCapacity_def test_plus_def jobid_char_def path_char_def is_alnum_def
      in_range_def match_abs_def startsWith_def)

lemma launch_invalid_rejected:
  "launch_validation default_config example_node launch_invalid =
     Some (''Missing required fields: block_id, compute_capacity, input_path'', ''missing_fields'')"
  by (simp add: launch_validation_def launch_invalid_def launch_b1_def)


text \<open>
  C1, as the code has it. For every launch request that passes validation, when the
  \<^verbatim>\<open>SystemStatus\<close> query answers: the gateway rejects with 503 if
  \<^verbatim>\<open>total_workers\<close> is zero, and otherwise with a different 503 if
  \<^verbatim>\<open>idle_workers\<close> is zero, in both cases without asking for the jobs; only when
  both are non-zero does it ask for the active jobs, and if that answers with a list
  in which some job, wherever it stands (no \<^verbatim>\<open>null\<close> entry before it), carries
  the same \<^verbatim>\<open>block_id\<close>, it rejects with 409. In none of the three cases is
  \<^verbatim>\<open>LaunchProof\<close> issued.
\<close>

theorem launch_admission_guard:
  assumes valid: "launch_validation cfg nd req = None"
    and ss: "SystemStatus coord = Inr systemStatus" "\<not> nullish systemStatus"
  shows
   "(strict_eq (workers_field systemStatus ''total_workers'') (JNum 0) \<longrightarrow>
       launch_handler cfg nd coord req =
         ([Rpc ''SystemStatus'', Audit ''proof_launch_rejected'' ''no_workers_available''],
          \<lparr> status = 503, json = ErrorBody no_workers_message \<rparr>))
    \<and> (\<not> strict_eq (workers_field systemStatus ''total_workers'') (JNum 0)
        \<and> strict_eq (workers_field systemStatus ''idle_workers'') (JNum 0) \<longrightarrow>
       launch_handler cfg nd coord req =
         ([Rpc ''SystemStatus'', Audit ''proof_launch_rejected'' ''all_workers_busy''],
          \<lparr> status = 503, json = ErrorBody (all_busy_message (workers_field systemStatus ''total_workers'')) \<rparr>))
    \<and> (\<not> strict_eq (workers_field systemStatus ''total_workers'') (JNum 0)
        \<and> \<not> strict_eq (workers_field systemStatus ''idle_workers'') (JNum 0)
        \<and> JobsList coord = Inr existingJobs \<and> \<not> nullish existingJobs
        \<and> jobs_of existingJobs = JArr (front @ job # rest)
        \<and> (\<forall>j \<in> set front. \<not> nullish j)
        \<and> block_id req = JStr s \<and> carries_block_id job s \<longrightarrow>
       launch_handler cfg nd coord req =
         ([Rpc ''SystemStatus'', Rpc ''JobsList'', Audit ''proof_launch_rejected'' ''duplicate_block_id''],
          \<lparr> status = 409, json = ErrorBody (duplicate_message (block_id req)) \<rparr>))
    \<and> no_workers_message \<noteq> all_busy_message (workers_field systemStatus ''total_workers'')"
proof -
  have a: "strict_eq (workers_field systemStatus ''total_workers'') (JNum 0) \<longrightarrow>
       launch_handler cfg nd coord req =
         ([Rpc ''SystemStatus'', Audit ''proof_launch_rejected'' ''no_workers_available''],
          \<lparr> status = 503, json = ErrorBody no_workers_message \<rparr>)"
    using valid ss by (simp add: launch_handler_def admission_guard_def Let_def)
  have b: "\<not> strict_eq (workers_field systemStatus ''total_workers'') (JNum 0)
        \<and> strict_eq (workers_field systemStatus ''idle_workers'') (JNum 0) \<longrightarrow>
       launch_handler cfg nd coord req =
         ([Rpc ''SystemStatus'', Audit ''proof_launch_rejected'' ''all_workers_busy''],
          \<lparr> status = 503, json = ErrorBody (all_busy_message (workers_field systemStatus ''total_workers'')) \<rparr>)"
    using valid ss by (simp add: launch_handler_def admission_guard_def Let_def)
  have c: "\<not> strict_eq (workers_field systemStatus ''total_workers'') (JNum 0)
        \<and> \<not> strict_eq (workers_field systemStatus ''idle_workers'') (JNum 0)
        \<and> JobsList coord = Inr existingJobs \<and> \<not> nullish existingJobs
        \<and> jobs_of existingJobs = JArr (front @ job # rest)
        \<and> (\<forall>j \<in> set front. \<not> nullish j)
        \<and> block_id req = JStr s \<and> carries_block_id job s \<longrightarrow>
       launch_handler cfg nd coord req =
         ([Rpc ''SystemStatus'', Rpc ''JobsList'', Audit ''proof_launch_rejected'' ''duplicate_block_id''],
          \<lparr> status = 409, json = ErrorBody (duplicate_message (block_id req)) \<rparr>)"
  proof
    assume h: "\<not> strict_eq (workers_field systemStatus ''total_workers'') (JNum 0)
        \<and> \<not> strict_eq (workers_field systemStatus ''idle_workers'') (JNum 0)
        \<and> JobsList coord = Inr existingJobs \<and> \<not> nullish existingJobs
        \<and> jobs_of existingJobs = JArr (front @ job # rest)
        \<and> (\<forall>j \<in> set front. \<not> nullish j)
        \<and> block_id req = JStr s \<and> carries_block_id job s"
    have ne: "s \<noteq> []" using validated_block_id [OF valid] h by auto
    obtain found where f: "find_job (front @ job # rest) (JStr s) = Inr (Some found)" "truthy found"
      using find_job_finds [of front job s rest] h ne by blast
    have "check_jobs coord (block_id req) = Reject 409 (duplicate_message (block_id req)) ''duplicate_block_id''"
      using h f by (simp add: check_jobs_def)
    then show "launch_handler cfg nd coord req =
         ([Rpc ''SystemStatus'', Rpc ''JobsList'', Audit ''proof_launch_rejected'' ''duplicate_block_id''],
          \<lparr> status = 409, json = ErrorBody (duplicate_message (block_id req)) \<rparr>)"
      using valid ss h by (simp add: launch_handler_def admission_guard_def Let_def)
  qed
  have d: "no_workers_message \<noteq> all_busy_message (workers_field systemStatus ''total_workers'')"
    by (simp add: no_workers_message_def all_busy_message_def)
  from a b c d show ?thesis by (intro conjI)
qed

text \<open>
  C1 as stated fails when an active job carries the same block id and no worker is
  idle: the answer is 503, not 409, and the jobs are never asked for.
\<close>

theorem duplicate_while_busy_counterexample:
  "launch_validation default_config example_node launch_b1 = None
   \<and> JobsList busy_coordinator = Inr (jobs_response [''b1''])
   \<and> jobs_of (jobs_response [''b1'']) = JArr [JObj [(''job_id'', JStr ''job-b1''), (''block_id'', JStr ''b1'')]]
   \<and> find_job [JObj [(''job_id'', JStr ''job-b1''), (''block_id'', JStr ''b1'')]] (block_id launch_b1)
        = Inr (Some (JObj [(''job_id'', JStr ''job-b1''), (''block_id'', JStr ''b1'')]))
   \<and> status (snd (launch_handler default_config example_node busy_coordinator launch_b1)) = 503
   \<and> rpcs_of (fst (launch_handler default_config example_node busy_coordinator launch_b1)) = [''SystemStatus'']"
proof -
  have h: "launch_handler default_config example_node busy_coordinator launch_b1 =
     ([Rpc ''SystemStatus'', Audit ''proof_launch_rejected'' ''all_workers_busy''],
      \<lparr> status = 503, json = ErrorBody (all_busy_message (JNum 1)) \<rparr>)"
    using launch_b1_valid
    by (simp add: launch_handler_def admission_guard_def busy_coordinator_def status_response_def
        workers_field_def js_or_def strict_eq_def nullish_def)
  have j: "jobs_of (jobs_response [''b1'']) = JArr [JObj [(''job_id'', JStr ''job-b1''), (''block_id'', JStr ''b1'')]]"
    by (simp add: jobs_of_def jobs_response_def js_or_def)
  have f: "find_job [JObj [(''job_id'', JStr ''job-b1''), (''block_id'', JStr ''b1'')]] (block_id launch_b1)
        = Inr (Some (JObj [(''job_id'', JStr ''job-b1''), (''block_id'', JStr ''b1'')]))"
    by (simp add: launch_b1_def nullish_def js_or_def strict_eq_def)
  have jl: "JobsList busy_coordinator = Inr (jobs_response [''b1''])"
    by (simp add: busy_coordinator_def)
  have s1: "status (snd (launch_handler default_config example_node busy_coordinator launch_b1)) = 503"
    by (simp add: h)
  have s2: "rpcs_of (fst (launch_handler default_config example_node busy_coordinator launch_b1)) = [''SystemStatus'']"
    by (simp add: h rpcs_of_simps)
  from launch_b1_valid jl j f s1 s2 show ?thesis by (intro conjI)
qed

text \<open>
  The three rejections on the coordinators of the examples; the duplicate is the
  second job of the list.
\<close>

theorem launch_admission_guard_witness:
  "launch_handler default_config example_node empty_coordinator launch_b1 =
     ([Rpc ''SystemStatus'', Audit ''proof_launch_rejected'' ''no_workers_available''],
      \<lparr> status = 503, json = ErrorBody no_workers_message \<rparr>)
   \<and> launch_handler default_config example_node busy_coordinator launch_b2 =
     ([Rpc ''SystemStatus'', Audit ''proof_launch_rejected'' ''all_workers_busy''],
      \<lparr> status = 503, json = ErrorBody (all_busy_message (JNum 1)) \<rparr>)
   \<and> launch_handler default_config example_node idle_coordinator launch_b1 =
     ([Rpc ''SystemStatus'', Rpc ''JobsList'', Audit ''proof_launch_rejected'' ''duplicate_block_id''],
      \<lparr> status = 409, json = ErrorBody (duplicate_message (JStr ''b1'')) \<rparr>)"
proof -
  let ?job0 = "JObj [(''job_id'', JStr ''job-b0''), (''block_id'', JStr ''b0'')]"
  let ?job1 = "JObj [(''job_id'', JStr ''job-b1''), (''block_id'', JStr ''b1'')]"
  have e: "SystemStatus empty_coordinator = Inr (status_response 0 0)"
    and b: "SystemStatus busy_coordinator = Inr (status_response 1 0)"
    and i: "SystemStatus idle_coordinator = Inr (status_response 2 1)"
    and ij: "JobsList idle_coordinator = Inr (jobs_response [''b0'', ''b1''])"
    by (simp_all add: empty_coordinator_def busy_coordinator_def idle_coordinator_def)
  have n: "\<not> nullish (status_response t i)" "\<not> nullish (jobs_response bs)" for t i bs
    by (simp_all add: nullish_def status_response_def jobs_response_def)
  have w: "workers_field (status_response t i) ''total_workers'' = JNum t"
     "workers_field (status_response t i) ''idle_workers'' = JNum i" for t i
    by (simp_all add: workers_field_def status_response_def js_or_def)
  have j: "jobs_of (jobs_response [''b0'', ''b1'']) = JArr ([?job0] @ ?job1 # [])"
    by (simp add: jobs_of_def jobs_response_def js_or_def)
  have f: "\<forall>j \<in> set [?job0]. \<not> nullish j" by (simp add: nullish_def)
  have c: "carries_block_id ?job1 ''b1''" by (simp add: carries_block_id_def)
  have b1: "block_id launch_b1 = JStr ''b1''" by (simp add: launch_b1_def)
  have w1: "launch_handler default_config example_node empty_coordinator launch_b1 =
     ([Rpc ''SystemStatus'', Audit ''proof_launch_rejected'' ''no_workers_available''],
      \<lparr> status = 503, json = ErrorBody no_workers_message \<rparr>)"
    using launch_admission_guard [OF launch_b1_valid e n(1), of JNull "[]" JNull "[]" "[]"]
    by (simp add: w strict_eq_def)
  have w2: "launch_handler default_config example_node busy_coordinator launch_b2 =
     ([Rpc ''SystemStatus'', Audit ''proof_launch_rejected'' ''all_workers_busy''],
      \<lparr> status = 503, json = ErrorBody (all_busy_message (JNum 1)) \<rparr>)"
    using launch_admission_guard [OF launch_b2_valid b n(1), of JNull "[]" JNull "[]" "[]"]
    by (simp add: w strict_eq_def)
  have w3: "launch_handler default_config example_node idle_coordinator launch_b1 =
     ([Rpc ''SystemStatus'', Rpc ''JobsList'', Audit ''proof_launch_rejected'' ''duplicate_block_id''],
      \<lparr> status = 409, json = ErrorBody (duplicate_message (JStr ''b1'')) \<rparr>)"
    using launch_admission_guard [OF launch_b1_valid i n(1), of "jobs_response [''b0'', ''b1'']"
        "[?job0]" ?job1 "[]" "''b1''"] ij n(2) j f c b1
    by (simp add: w strict_eq_def)
  from w1 w2 w3 show ?thesis by (intro conjI)
qed

text \<open>
  C3, as the code has it. For every request to the launch route, the rate limiter
  runs first and updates its map whether or not the request is valid; a request it
  rejects is answered 429 and nothing else is done; a request it admits and that
  fails validation is answered 400 without any RPC; an RPC is issued only for a
  request that was admitted and then passed validation.
\<close>

theorem launch_pipeline_order:
  "fst (launch_route cfg nd coord m req) = fst (rateLimit cfg m (client_key req) (arrival req))
   \<and> (snd (rateLimit cfg m (client_key req) (arrival req)) \<noteq> Next \<longrightarrow>
         fst (snd (launch_route cfg nd coord m req)) = []
         \<and> status (snd (snd (launch_route cfg nd coord m req))) = 429)
   \<and> (snd (rateLimit cfg m (client_key req) (arrival req)) = Next
        \<and> launch_validation cfg nd req \<noteq> None \<longrightarrow>
         status (snd (snd (launch_route cfg nd coord m req))) = 400
         \<and> rpcs_of (fst (snd (launch_route cfg nd coord m req))) = [])
   \<and> (rpcs_of (fst (snd (launch_route cfg nd coord m req))) \<noteq> [] \<longrightarrow>
         snd (rateLimit cfg m (client_key req) (arrival req)) = Next
         \<and> launch_validation cfg nd req = None)"
proof (cases "rateLimit cfg m (client_key req) (arrival req)")
  case (Pair m' out)
  show ?thesis
  proof (cases out)
    case Next
    have invalid: "launch_validation cfg nd req = Some mr \<Longrightarrow>
        status (snd (launch_handler cfg nd coord req)) = 400
        \<and> rpcs_of (fst (launch_handler cfg nd coord req)) = []" for mr
      by (cases mr) (simp add: launch_handler_def rpcs_of_simps)
    show ?thesis
    proof (cases "launch_validation cfg nd req")
      case None
      then show ?thesis using Pair Next by (simp add: launch_route_def)
    next
      case (Some mr)
      then show ?thesis using Pair Next invalid [OF Some] by (simp add: launch_route_def)
    qed
  next
    case (Status429 limit window)
    then show ?thesis using Pair by (simp add: launch_route_def rpcs_of_simps)
  qed
qed

lemma rateLimit_first: "rateLimit default_config no_records ''10.0.0.7'' 1000 =
    (no_records(''10.0.0.7'' \<mapsto> \<lparr> count = 1, resetTime = 61000 \<rparr>), Next)"
  by (simp add: rateLimit_def no_records_def default_config_def)

lemma rateLimit_exhausted: "rateLimit default_config exhausted_records ''10.0.0.7'' 1000 =
    (exhausted_records, Status429 10 60000)"
  by (simp add: rateLimit_def exhausted_records_def default_config_def)

lemma launch_invalid_key: "client_key launch_invalid = ''10.0.0.7''" "arrival launch_invalid = 1000"
  by (simp_all add: launch_invalid_def launch_b1_def)

text \<open>
  C3 as stated fails: a request without a block id is counted by the limiter, and
  when the client's budget is used up the same request is answered 429 before any
  validation.
\<close>

theorem invalid_request_consumes_budget_counterexample:
  "launch_validation default_config example_node launch_invalid \<noteq> None
   \<and> no_records (client_key launch_invalid) = None
   \<and> fst (launch_route default_config example_node idle_coordinator no_records launch_invalid)
        (client_key launch_invalid) = Some \<lparr> count = 1, resetTime = 61000 \<rparr>
   \<and> status (snd (snd (launch_route default_config example_node idle_coordinator exhausted_records
        launch_invalid))) = 429"
proof -
  have a: "launch_validation default_config example_node launch_invalid \<noteq> None"
    by (simp add: launch_invalid_rejected)
  have b: "no_records (client_key launch_invalid) = None" by (simp add: no_records_def)
  have c: "fst (launch_route default_config example_node idle_coordinator no_records launch_invalid)
        (client_key launch_invalid) = Some \<lparr> count = 1, resetTime = 61000 \<rparr>"
    by (simp add: launch_route_def launch_invalid_key rateLimit_first)
  have d: "status (snd (snd (launch_route default_config example_node idle_coordinator exhausted_records
        launch_invalid))) = 429"
    by (simp add: launch_route_def launch_invalid_key rateLimit_exhausted)
  from a b c d show ?thesis by (intro conjI)
qed

text \<open>The invalid request on a fresh and on an exhausted limiter.\<close>

theorem launch_pipeline_order_witness:
  "status (snd (snd (launch_route default_config example_node idle_coordinator no_records launch_invalid))) = 400
   \<and> rpcs_of (fst (snd (launch_route default_config example_node idle_coordinator no_records launch_invalid))) = []
   \<and> fst (snd (launch_route default_config example_node idle_coordinator exhausted_records launch_invalid)) = []
   \<and> status (snd (snd (launch_route default_config example_node idle_coordinator exhausted_records launch_invalid))) = 429"
proof -
  have a: "snd (rateLimit default_config no_records (client_key launch_invalid) (arrival launch_invalid)) = Next"
    by (simp add: launch_invalid_key rateLimit_first)
  have b: "launch_validation default_config example_node launch_invalid \<noteq> None"
    by (simp add: launch_invalid_rejected)
  have c: "snd (rateLimit default_config exhausted_records (client_key launch_invalid) (arrival launch_invalid)) \<noteq> Next"
    by (simp add: launch_invalid_key rateLimit_exhausted)
  have w1: "status (snd (snd (launch_route default_config example_node idle_coordinator no_records launch_invalid))) = 400
     \<and> rpcs_of (fst (snd (launch_route default_config example_node idle_coordinator no_records launch_invalid))) = []"
    using launch_pipeline_order [of default_config example_node idle_coordinator no_records launch_invalid] a b
    by simp
  have w2: "fst (snd (launch_route default_config example_node idle_coordinator exhausted_records launch_invalid)) = []
   \<and> status (snd (snd (launch_route default_config example_node idle_coordinator exhausted_records launch_invalid))) = 429"
    using launch_pipeline_order [of default_config example_node idle_coordinator exhausted_records launch_invalid] c
    by simp
  from w1 w2 show ?thesis by simp
qed


text \<open>
  C10. For every launch request that passes validation: if the \<^verbatim>\<open>SystemStatus\<close>
  query throws, or if it answers with workers and idle workers and the
  \<^verbatim>\<open>JobsList\<close> query throws, the error is swallowed, no rejection is applied, and
  the handler goes on to the launch, which issues \<^verbatim>\<open>LaunchProof\<close>.
\<close>

theorem launch_guard_fails_open:
  assumes valid: "launch_validation cfg nd req = None"
  shows
   "(SystemStatus coord = Inl e \<longrightarrow>
       snd (admission_guard coord (block_id req)) = Swallowed e
       \<and> launch_handler cfg nd coord req =
           (Rpc ''SystemStatus'' # fst (launch_proof nd coord req), snd (launch_proof nd coord req)))
    \<and> (SystemStatus coord = Inr systemStatus \<and> \<not> nullish systemStatus
        \<and> \<not> strict_eq (workers_field systemStatus ''total_workers'') (JNum 0)
        \<and> \<not> strict_eq (workers_field systemStatus ''idle_workers'') (JNum 0)
        \<and> JobsList coord = Inl e \<longrightarrow>
       snd (admission_guard coord (block_id req)) = Swallowed e
       \<and> launch_handler cfg nd coord req =
           (Rpc ''SystemStatus'' # Rpc ''JobsList'' # fst (launch_proof nd coord req),
            snd (launch_proof nd coord req)))
    \<and> rpcs_of (fst (launch_proof nd coord req)) = [''LaunchProof'']"
proof -
  have a: "SystemStatus coord = Inl e \<longrightarrow>
       snd (admission_guard coord (block_id req)) = Swallowed e
       \<and> launch_handler cfg nd coord req =
           (Rpc ''SystemStatus'' # fst (launch_proof nd coord req), snd (launch_proof nd coord req))"
    using valid by (simp add: launch_handler_def admission_guard_def)
  have b: "SystemStatus coord = Inr systemStatus \<and> \<not> nullish systemStatus
        \<and> \<not> strict_eq (workers_field systemStatus ''total_workers'') (JNum 0)
        \<and> \<not> strict_eq (workers_field systemStatus ''idle_workers'') (JNum 0)
        \<and> JobsList coord = Inl e \<longrightarrow>
       snd (admission_guard coord (block_id req)) = Swallowed e
       \<and> launch_handler cfg nd coord req =
           (Rpc ''SystemStatus'' # Rpc ''JobsList'' # fst (launch_proof nd coord req),
            snd (launch_proof nd coord req))"
    using valid by (simp add: launch_handler_def admission_guard_def check_jobs_def Let_def)
  from a b launch_proof_rpcs [of nd coord req] show ?thesis by (intro conjI)
qed

lemma launch_proof_example:
  "LaunchProof coord = (\<lambda>b c p. Inr launch_response) \<Longrightarrow>
   launch_proof example_node coord launch_b1 =
     ([Audit ''proof_launch_initiated'' [], Rpc ''LaunchProof'', Audit ''proof_launch_success'' []],
      \<lparr> status = 200, json = LaunchOk ''job-new'' \<rparr>)"
  by (simp add: launch_proof_def launch_success_def launch_result_def launch_response_def
      js_or_def strict_eq_def nullish_def)

text \<open>Both failing coordinators let the launch of \<^verbatim>\<open>b1\<close> through.\<close>

theorem launch_guard_fails_open_witness:
  "launch_handler default_config example_node failing_coordinator launch_b1 =
     ([Rpc ''SystemStatus'', Audit ''proof_launch_initiated'' [], Rpc ''LaunchProof'',
       Audit ''proof_launch_success'' []],
      \<lparr> status = 200, json = LaunchOk ''job-new'' \<rparr>)
   \<and> launch_handler default_config example_node half_failing_coordinator launch_b1 =
     ([Rpc ''SystemStatus'', Rpc ''JobsList'', Audit ''proof_launch_initiated'' [], Rpc ''LaunchProof'',
       Audit ''proof_launch_success'' []],
      \<lparr> status = 200, json = LaunchOk ''job-new'' \<rparr>)"
proof -
  have f: "SystemStatus failing_coordinator = Inl (Error ''14 UNAVAILABLE'')"
    and fl: "LaunchProof failing_coordinator = (\<lambda>b c p. Inr launch_response)"
    and h: "SystemStatus half_failing_coordinator = Inr (status_response 2 1)"
    and hj: "JobsList half_failing_coordinator = Inl (Error ''14 UNAVAILABLE'')"
    and hl: "LaunchProof half_failing_coordinator = (\<lambda>b c p. Inr launch_response)"
    by (simp_all add: failing_coordinator_def half_failing_coordinator_def)
  have n: "\<not> nullish (status_response 2 1)"
    by (simp add: nullish_def status_response_def)
  have w: "workers_field (status_response 2 1) ''total_workers'' = JNum 2"
     "workers_field (status_response 2 1) ''idle_workers'' = JNum 1"
    by (simp_all add: workers_field_def status_response_def js_or_def)
  have w1: "launch_handler default_config example_node failing_coordinator launch_b1 =
     ([Rpc ''SystemStatus'', Audit ''proof_launch_initiated'' [], Rpc ''LaunchProof'',
       Audit ''proof_launch_success'' []],
      \<lparr> status = 200, json = LaunchOk ''job-new'' \<rparr>)"
    using launch_guard_fails_open [OF launch_b1_valid, of failing_coordinator "Error ''14 UNAVAILABLE''" JNull] f
    by (simp add: launch_proof_example [OF fl])
  have w2: "launch_handler default_config example_node half_failing_coordinator launch_b1 =
     ([Rpc ''SystemStatus'', Rpc ''JobsList'', Audit ''proof_launch_initiated'' [], Rpc ''LaunchProof'',
       Audit ''proof_launch_success'' []],
      \<lparr> status = 200, json = LaunchOk ''job-new'' \<rparr>)"
    using launch_guard_fails_open [OF launch_b1_valid, of half_failing_coordinator "Error ''14 UNAVAILABLE''"
        "status_response 2 1"] h hj n
    by (simp add: launch_proof_example [OF hl] w strict_eq_def)
  from w1 w2 show ?thesis by (intro conjI)
qed

section \<open>Properties of binary discovery\<close>

lemma first_existing_append:
  "first_existing mc (xs @ ys) = (case first_existing mc xs of Some p \<Rightarrow> Some p | None \<Rightarrow> first_existing mc ys)"
  by (induction xs) auto

lemma first_existing_path:
  "first_existing mc (path_candidates mc name) =
     (if (case which mc name of None \<Rightarrow> False | Some w \<Rightarrow> w \<noteq> [] \<and> existsSync mc w) then which mc name else None)"
  by (auto simp: path_candidates_def split: option.splits)

lemma first_existing_repo:
  "first_existing mc (repo_candidates nd mc name) = repo_build nd mc name"
  by (auto simp: repo_candidates_def repo_build_def split: option.splits)

text \<open>
  C8, as the code has it. Neither function has an override step. The coordinator
  binary is the first existing candidate among the \<^verbatim>\<open>PATH\<close> lookup, then the
  conventional directories, then the release and debug builds under the repository
  root; the worker binary is the first existing candidate among the conventional
  directories, then the \<^verbatim>\<open>PATH\<close> lookup, then the release and debug builds.
\<close>

theorem binary_discovery_order:
  "findCoordinatorBinary nd mc =
     first_existing mc (path_candidates mc ''zisk-coordinator''
        @ commonPaths nd mc ''zisk-coordinator'' @ repo_candidates nd mc ''zisk-coordinator'')
   \<and> findWorkerBinary nd mc =
     first_existing mc (commonPaths nd mc ''zisk-worker''
        @ path_candidates mc ''zisk-worker'' @ repo_candidates nd mc ''zisk-worker'')"
  by (simp add: findCoordinatorBinary_def findWorkerBinary_def first_existing_append
      first_existing_path first_existing_repo Let_def split: option.splits)

text \<open>
  C8 as stated fails: where the worker is installed in a conventional directory and
  \<^verbatim>\<open>which\<close> finds another copy, the four-step order gives the copy on the
  \<^verbatim>\<open>PATH\<close> and the code gives the conventional one, while for the coordinator the
  code gives the copy on the \<^verbatim>\<open>PATH\<close>; and a configured override is not looked at.
\<close>

theorem binary_discovery_counterexample:
  "findWorkerBinary example_node example_machine = Some ''/usr/local/bin/zisk-worker''
   \<and> discovery_spec example_node example_machine None ''zisk-worker'' = Some ''/opt/zisk/bin/zisk-worker''
   \<and> findCoordinatorBinary example_node example_machine = Some ''/opt/zisk/bin/zisk-coordinator''
   \<and> discovery_spec example_node example_machine (Some ''/usr/local/bin/zisk-coordinator'') ''zisk-coordinator''
       = Some ''/usr/local/bin/zisk-coordinator''"
  by (simp add: findWorkerBinary_def findCoordinatorBinary_def discovery_spec_def example_node_def
      example_machine_def commonPaths_def path_candidates_def repo_candidates_def repo_build_def)

text \<open>The two functions on the machine of the examples.\<close>

theorem binary_discovery_order_witness:
  "findCoordinatorBinary example_node example_machine = Some ''/opt/zisk/bin/zisk-coordinator''
   \<and> findWorkerBinary example_node example_machine = Some ''/usr/local/bin/zisk-worker''"
proof -
  have "first_existing example_machine (path_candidates example_machine ''zisk-coordinator''
        @ commonPaths example_node example_machine ''zisk-coordinator''
        @ repo_candidates example_node example_machine ''zisk-coordinator'') = Some ''/opt/zisk/bin/zisk-coordinator''"
    by (simp add: example_machine_def path_candidates_def)
  moreover have "first_existing example_machine (commonPaths example_node example_machine ''zisk-worker''
        @ path_candidates example_machine ''zisk-worker''
        @ repo_candidates example_node example_machine ''zisk-worker'') = Some ''/usr/local/bin/zisk-worker''"
    by (simp add: example_machine_def example_node_def commonPaths_def)
  ultimately show ?thesis
    using binary_discovery_order [of example_node example_machine] by simp
qed

section \<open>Properties of the worker start\<close>























end
